theory Spec2Isabelle
  imports
    Complex_Main
    "HOL-Library.List_Lexorder"
    "HOL-Library.Product_Lexorder"
begin

section \<open>Truck tracker backend: status classifier\<close>

text \<open>
  The development follows \<^verbatim>\<open>backend_api.py\<close>. Python integers are unbounded and are
  modelled by \<^typ>\<open>int\<close>; the wall clock read by \<^verbatim>\<open>int(time.time())\<close> is an explicit
  argument \<open>now\<close>.
\<close>

datatype MotionState = Moving | Idle | Stopped

definition STALE_THRESHOLD_HOURS :: real where
  "STALE_THRESHOLD_HOURS = 1"

definition IDLE_THRESHOLD_HOURS :: real where
  "IDLE_THRESHOLD_HOURS = 0.5"

text \<open>
  \<^verbatim>\<open>time_diff_hours = (current_time - timestamp) / 3600\<close> is Python's true division of
  two integers, a correctly rounded binary64 quotient. The quotient is taken here in the
  reals. Rounding to nearest is monotone and leaves the thresholds \<open>1\<close> and \<open>0.5\<close>
  (both binary64 values) fixed, so the two comparisons of the source have the same
  outcome on the rounded quotient as on the exact one.
\<close>

definition determine_status :: "int \<Rightarrow> int \<Rightarrow> MotionState" where
  "determine_status current_time timestamp =
     (let time_diff_hours = real_of_int (current_time - timestamp) / 3600
      in if time_diff_hours > STALE_THRESHOLD_HOURS then Stopped
         else if time_diff_hours > IDLE_THRESHOLD_HOURS then Idle
         else Moving)"

section \<open>Values decoded from JSON, Python exceptions\<close>

text \<open>
  A Python \<^verbatim>\<open>str\<close> is a sequence of Unicode code points, and \<^verbatim>\<open>strip()\<close> and the database
  driver look at code points, so a string value is a list of code points (\<open>ustr\<close>);
  \<open>ascii\<close> writes one from a literal.
\<close>

type_synonym ustr = "nat list"

definition ascii :: "string \<Rightarrow> ustr" where
  "ascii s = map of_char s"

abbreviation comma :: nat where
  "comma \<equiv> 44"

text \<open>
  \<^verbatim>\<open>receive_json\<close> hands the loop whatever \<^verbatim>\<open>json.loads\<close> decoded, and the three filter
  variables hold whatever \<^verbatim>\<open>filters.get\<close> returned, so both are values of \<open>json\<close>;
  Python's \<^verbatim>\<open>None\<close> is \<open>JNull\<close>. An object is kept as its member list; a repeated key
  keeps its last value, as \<^verbatim>\<open>json.loads\<close> does. Member names are only ever compared with
  the ASCII names the code looks up, so they are kept as (UTF-8) byte strings. Numbers are
  reals (only their truth value is ever inspected).
\<close>

datatype json =
    JNull
  | JBool bool
  | JNum real
  | JStr ustr
  | JArr "json list"
  | JObj "(string \<times> json) list"

datatype py_exception =
    TypeError
  | AttributeError
  | KeyError
  | OverflowError
  | DatabaseError
  | HTTPException int

definition dict_lookup :: "(string \<times> json) list \<Rightarrow> string \<Rightarrow> json option" where
  "dict_lookup kvs k = map_of (rev kvs) k"

text \<open>Truth value of a Python object, as tested by \<^verbatim>\<open>if x:\<close> and \<^verbatim>\<open>x and ...\<close>.\<close>

fun truthy :: "json \<Rightarrow> bool" where
  "truthy JNull = False"
| "truthy (JBool b) = b"
| "truthy (JNum x) = (x \<noteq> 0)"
| "truthy (JStr s) = (s \<noteq> [])"
| "truthy (JArr xs) = (xs \<noteq> [])"
| "truthy (JObj kvs) = (kvs \<noteq> [])"

fun startswith :: "'a list \<Rightarrow> 'a list \<Rightarrow> bool" where
  "startswith s [] = True"
| "startswith [] (c # cs) = False"
| "startswith (d # ds) (c # cs) = (d = c \<and> startswith ds cs)"

fun substring_in :: "'a list \<Rightarrow> 'a list \<Rightarrow> bool" where
  "substring_in k [] = (k = [])"
| "substring_in k (c # cs) = (startswith (c # cs) k \<or> substring_in k cs)"

text \<open>
  \<^verbatim>\<open>k in x\<close> for an ASCII string \<open>k\<close>: key membership in a dict, element membership in a list,
  substring test in a string, \<^verbatim>\<open>TypeError\<close> on a number, a boolean or \<^verbatim>\<open>None\<close>.
\<close>

fun py_in :: "string \<Rightarrow> json \<Rightarrow> py_exception + bool" where
  "py_in k (JObj kvs) = Inr (k \<in> set (map fst kvs))"
| "py_in k (JArr xs) = Inr (JStr (ascii k) \<in> set xs)"
| "py_in k (JStr s) = Inr (substring_in (ascii k) s)"
| "py_in k (JNum x) = Inl TypeError"
| "py_in k (JBool b) = Inl TypeError"
| "py_in k JNull = Inl TypeError"

text \<open>\<^verbatim>\<open>x[k]\<close> for a string \<open>k\<close>: only a dict can be indexed by a string.\<close>

fun py_getitem :: "json \<Rightarrow> string \<Rightarrow> py_exception + json" where
  "py_getitem (JObj kvs) k =
     (case dict_lookup kvs k of None \<Rightarrow> Inl KeyError | Some v \<Rightarrow> Inr v)"
| "py_getitem (JArr xs) k = Inl TypeError"
| "py_getitem (JStr s) k = Inl TypeError"
| "py_getitem (JNum x) k = Inl TypeError"
| "py_getitem (JBool b) k = Inl TypeError"
| "py_getitem JNull k = Inl TypeError"

text \<open>\<^verbatim>\<open>x.get(k, default)\<close>: only a dict has the method.\<close>

fun py_get :: "json \<Rightarrow> string \<Rightarrow> json \<Rightarrow> py_exception + json" where
  "py_get (JObj kvs) k d = Inr (case dict_lookup kvs k of None \<Rightarrow> d | Some v \<Rightarrow> v)"
| "py_get (JArr xs) k d = Inl AttributeError"
| "py_get (JStr s) k d = Inl AttributeError"
| "py_get (JNum x) k d = Inl AttributeError"
| "py_get (JBool b) k d = Inl AttributeError"
| "py_get JNull k d = Inl AttributeError"

section \<open>Strings: \<^verbatim>\<open>split(',')\<close> and \<^verbatim>\<open>strip()\<close>\<close>

text \<open>
  The code points that \<^verbatim>\<open>str.strip()\<close> removes (those for which \<^verbatim>\<open>str.isspace\<close> holds):
  U+0009 to U+000D, U+001C to U+0020, U+0085, U+00A0, U+1680, U+2000 to U+200A, U+2028,
  U+2029, U+202F, U+205F and U+3000.
\<close>

definition is_space :: "nat \<Rightarrow> bool" where
  "is_space c = (c \<in> set [9, 10, 11, 12, 13, 28, 29, 30, 31, 32, 133, 160, 5760,
                            8192, 8193, 8194, 8195, 8196, 8197, 8198, 8199, 8200, 8201, 8202,
                            8232, 8233, 8239, 8287, 12288])"

definition strip :: "ustr \<Rightarrow> ustr" where
  "strip s = rev (dropWhile is_space (rev (dropWhile is_space s)))"

text \<open>\<^verbatim>\<open>s.split(',')\<close>: never empty, one more token than there are commas.\<close>

fun split_comma :: "ustr \<Rightarrow> ustr list" where
  "split_comma [] = [[]]"
| "split_comma (c # cs) =
     (if c = comma then [] # split_comma cs
      else (case split_comma cs of [] \<Rightarrow> [[c]] | t # ts \<Rightarrow> (c # t) # ts))"

text \<open>\<^verbatim>\<open>[vid.strip() for vid in car_filter.split(',') if vid.strip()]\<close>\<close>

definition vehicle_ids_of :: "ustr \<Rightarrow> ustr list" where
  "vehicle_ids_of car_filter =
     map strip (filter (\<lambda>vid. strip vid \<noteq> []) (split_comma car_filter))"

section \<open>The position table and the queries sent to it\<close>

text \<open>
  A row of \<^verbatim>\<open>public.tracking_data2\<close>, with the columns the code reads and none of them
  null. The timestamp is in epoch seconds; a date is its day number.
\<close>

record PositionRecord =
  car :: ustr
  latitude :: real
  longitude :: real
  timestamp :: int
  date :: int

text \<open>
  The database is either unreachable (\<^verbatim>\<open>get_db_connection\<close> raises
  \<^verbatim>\<open>HTTPException(500)\<close>) or answers queries over the rows of the table.
\<close>

datatype database = Unreachable | Reachable "PositionRecord list"

definition get_db_connection :: "database \<Rightarrow> py_exception + PositionRecord list" where
  "get_db_connection db =
     (case db of Unreachable \<Rightarrow> Inl (HTTPException 500) | Reachable table \<Rightarrow> Inr table)"

text \<open>
  What the code takes from its platform.
  \<^item> \<open>accepts_text\<close>: whether the driver can encode a string in the encoding of the
    connection and the server takes it as a text parameter.
  \<^item> \<open>list_as_text\<close>: what the driver and the server make of a list bound to
    \<^verbatim>\<open>car = %s\<close>: the text the column is compared with, or \<open>None\<close> when either refuses it.
  \<^item> \<open>parse_date\<close>: the server's conversion of a string compared with the \<^verbatim>\<open>date\<close>
    column; \<open>None\<close> when the string is no date.
  \<^item> \<open>fromtimestamp\<close>: \<^verbatim>\<open>datetime.fromtimestamp(t).strftime(...)\<close>; \<open>None\<close> when the
    timestamp is outside the range of \<^verbatim>\<open>datetime\<close> and the call raises.
\<close>

record platform =
  accepts_text :: "ustr \<Rightarrow> bool"
  list_as_text :: "json list \<Rightarrow> ustr option"
  parse_date :: "ustr \<Rightarrow> int option"
  fromtimestamp :: "int \<Rightarrow> string option"

text \<open>
  Whatever the platform, a string with the code point 0 is refused by the driver
  (PostgreSQL text cannot hold NUL), and a string with a surrogate code point cannot be
  encoded.
\<close>

definition param_ok :: "platform \<Rightarrow> ustr \<Rightarrow> bool" where
  "param_ok p s =
     (list_all (\<lambda>c. c \<noteq> 0 \<and> (c < 55296 \<or> 57343 < c)) s \<and> accepts_text p s)"

text \<open>
  A value bound to a placeholder that is compared with \<^verbatim>\<open>car\<close>: the text it stands for,
  or \<open>None\<close> when the query is rejected. The driver cannot adapt a dict, and no comparison
  of text with a number or a boolean exists.
\<close>

fun car_param :: "platform \<Rightarrow> json \<Rightarrow> ustr option" where
  "car_param p (JStr s) = (if param_ok p s then Some s else None)"
| "car_param p (JArr xs) = list_as_text p xs"
| "car_param p (JObj kvs) = None"
| "car_param p (JNum x) = None"
| "car_param p (JBool b) = None"
| "car_param p JNull = None"

text \<open>
  A value bound to a placeholder that is compared with \<^verbatim>\<open>date\<close>: the date it stands for,
  or \<open>None\<close> when the query is rejected. No comparison of a date with a number, a boolean
  or an array exists, and the text of an array is no date.
\<close>

fun date_param :: "platform \<Rightarrow> json \<Rightarrow> int option" where
  "date_param p (JStr s) = (if param_ok p s then parse_date p s else None)"
| "date_param p (JArr xs) = None"
| "date_param p (JObj kvs) = None"
| "date_param p (JNum x) = None"
| "date_param p (JBool b) = None"
| "date_param p JNull = None"

text \<open>
  The conditions appended to \<^verbatim>\<open>WHERE 1=1\<close>, each with the parameters bound to its
  placeholders. The parameters of \<^verbatim>\<open>car IN (...)\<close> are strings by construction; the others
  are whatever value the filter variable holds.
\<close>

datatype clause =
    CarIn "ustr list"
  | CarEq json
  | DateGe json
  | DateLe json

text \<open>The query is rejected when one of its parameters is.\<close>

fun clause_valid :: "platform \<Rightarrow> clause \<Rightarrow> bool" where
  "clause_valid p (CarIn ids) = list_all (param_ok p) ids"
| "clause_valid p (CarEq v) = (car_param p v \<noteq> None)"
| "clause_valid p (DateGe v) = (date_param p v \<noteq> None)"
| "clause_valid p (DateLe v) = (date_param p v \<noteq> None)"

fun clause_holds :: "platform \<Rightarrow> clause \<Rightarrow> PositionRecord \<Rightarrow> bool" where
  "clause_holds p (CarIn ids) r = (car r \<in> set ids)"
| "clause_holds p (CarEq v) r = (car_param p v = Some (car r))"
| "clause_holds p (DateGe v) r =
     (case date_param p v of None \<Rightarrow> False | Some d \<Rightarrow> d \<le> date r)"
| "clause_holds p (DateLe v) r =
     (case date_param p v of None \<Rightarrow> False | Some d \<Rightarrow> date r \<le> d)"

definition where_clause :: "platform \<Rightarrow> clause list \<Rightarrow> PositionRecord \<Rightarrow> bool" where
  "where_clause p cs r = list_all (\<lambda>c. clause_holds p c r) cs"

text \<open>
  \<^verbatim>\<open>SELECT DISTINCT ON (car) ...\<close> keeps the first row of each run of rows with the same
  \<^verbatim>\<open>car\<close> in the order of \<^verbatim>\<open>ORDER BY\<close>.
\<close>

fun distinct_on_car :: "PositionRecord list \<Rightarrow> PositionRecord list" where
  "distinct_on_car [] = []"
| "distinct_on_car [r] = [r]"
| "distinct_on_car (r # r' # rs) =
     (if car r = car r' then distinct_on_car (r # rs) else r # distinct_on_car (r' # rs))"

text \<open>
  The query of \<^verbatim>\<open>get_truck_locations\<close>: \<^verbatim>\<open>WHERE\<close>, then \<^verbatim>\<open>ORDER BY car, "timestamp" DESC\<close>,
  then \<^verbatim>\<open>DISTINCT ON (car)\<close>. Strings are ordered lexicographically by code point here (the properties
  below hold for every linear order on them), and rows with equal keys keep their table
  order.
\<close>

definition latest_records ::
  "platform \<Rightarrow> clause list \<Rightarrow> PositionRecord list \<Rightarrow> py_exception + PositionRecord list" where
  "latest_records p cs table =
     (if list_all (clause_valid p) cs
      then Inr (distinct_on_car
                 (sort_key (\<lambda>r. (car r, - timestamp r)) (filter (where_clause p cs) table)))
      else Inl DatabaseError)"

text \<open>
  The query of \<^verbatim>\<open>get_truck_history\<close>: \<^verbatim>\<open>SELECT * ... WHERE car = %s ... ORDER BY "timestamp" DESC\<close>.
\<close>

definition history_records ::
  "platform \<Rightarrow> clause list \<Rightarrow> PositionRecord list \<Rightarrow> py_exception + PositionRecord list" where
  "history_records p cs table =
     (if list_all (clause_valid p) cs
      then Inr (sort_key (\<lambda>r. - timestamp r) (filter (where_clause p cs) table))
      else Inl DatabaseError)"

section \<open>Snapshot assembly: \<^verbatim>\<open>get_truck_locations\<close>\<close>

text \<open>
  The conditions built from the three arguments. Nothing checks the arguments' types. A
  value without truth (\<^verbatim>\<open>None\<close>, the empty string, \<open>0\<close>, an empty list) adds no
  condition. For any other \<^verbatim>\<open>car_filter\<close>, \<^verbatim>\<open>',' in car_filter\<close> is a substring test on a
  string, an element test on a list, a key test on a dict and a \<^verbatim>\<open>TypeError\<close> on a number
  or a boolean; when it holds, \<^verbatim>\<open>car_filter.split\<close> exists on a string only; when it does
  not hold, the value itself is bound to \<^verbatim>\<open>car = %s\<close>.
\<close>

definition car_clauses :: "json \<Rightarrow> py_exception + clause list" where
  "car_clauses car_filter =
     (if truthy car_filter then
        (case py_in '','' car_filter of
           Inl e \<Rightarrow> Inl e
         | Inr True \<Rightarrow>
             (case car_filter of
                JStr s \<Rightarrow>
                  (let vehicle_ids = vehicle_ids_of s
                   in if vehicle_ids \<noteq> [] then Inr [CarIn vehicle_ids] else Inr [])
              | _ \<Rightarrow> Inl AttributeError)
         | Inr False \<Rightarrow> Inr [CarEq car_filter])
      else Inr [])"

text \<open>\<^verbatim>\<open>if date_from: query += " AND date >= %s"; params.append(date_from)\<close>, and likewise \<^verbatim>\<open>date_to\<close>.\<close>

definition date_clauses :: "(json \<Rightarrow> clause) \<Rightarrow> json \<Rightarrow> clause list" where
  "date_clauses mk d = (if truthy d then [mk d] else [])"

definition build_clauses :: "json \<Rightarrow> json \<Rightarrow> json \<Rightarrow> py_exception + clause list" where
  "build_clauses car_filter date_from date_to =
     (case car_clauses car_filter of
        Inl e \<Rightarrow> Inl e
      | Inr cs \<Rightarrow> Inr (cs @ date_clauses DateGe date_from @ date_clauses DateLe date_to))"

text \<open>
  A GeoJSON feature, flattened: \<^verbatim>\<open>geometry.coordinates\<close> is longitude before latitude,
  the other fields are the members of \<^verbatim>\<open>properties\<close>. The date is kept as the row has it
  (\<^verbatim>\<open>str(date)\<close> is not rendered).
\<close>

record Feature =
  coordinates :: "real \<times> real"
  prop_id :: ustr
  prop_status :: MotionState
  prop_timestamp :: int
  prop_date :: int
  prop_last_update :: string

text \<open>
  The body of the loop over the rows. One reading \<open>now\<close> of the clock serves all the
  rows of a call.
\<close>

definition make_feature :: "platform \<Rightarrow> int \<Rightarrow> PositionRecord \<Rightarrow> py_exception + Feature" where
  "make_feature p now row =
     (case fromtimestamp p (timestamp row) of
        None \<Rightarrow> Inl OverflowError
      | Some s \<Rightarrow>
          Inr \<lparr>coordinates = (longitude row, latitude row),
               prop_id = car row,
               prop_status = determine_status now (timestamp row),
               prop_timestamp = timestamp row,
               prop_date = date row,
               prop_last_update = s\<rparr>)"

fun build_features :: "platform \<Rightarrow> int \<Rightarrow> PositionRecord list \<Rightarrow> py_exception + Feature list" where
  "build_features p now [] = Inr []"
| "build_features p now (row # rows) =
     (case make_feature p now row of
        Inl e \<Rightarrow> Inl e
      | Inr f \<Rightarrow>
          (case build_features p now rows of
             Inl e \<Rightarrow> Inl e
           | Inr fs \<Rightarrow> Inr (f # fs)))"

text \<open>The body of the \<^verbatim>\<open>try\<close> of \<^verbatim>\<open>get_truck_locations\<close>.\<close>

definition truck_locations_body ::
  "platform \<Rightarrow> database \<Rightarrow> int \<Rightarrow> json \<Rightarrow> json \<Rightarrow> json \<Rightarrow> py_exception + Feature list" where
  "truck_locations_body p db now car_filter date_from date_to =
     (case get_db_connection db of
        Inl e \<Rightarrow> Inl e
      | Inr table \<Rightarrow>
          (case build_clauses car_filter date_from date_to of
             Inl e \<Rightarrow> Inl e
           | Inr cs \<Rightarrow>
               (case latest_records p cs table of
                  Inl e \<Rightarrow> Inl e
                | Inr rows \<Rightarrow> build_features p now rows)))"

text \<open>\<^verbatim>\<open>except Exception: return []\<close>\<close>

definition get_truck_locations ::
  "platform \<Rightarrow> database \<Rightarrow> int \<Rightarrow> json \<Rightarrow> json \<Rightarrow> json \<Rightarrow> Feature list" where
  "get_truck_locations p db now car_filter date_from date_to =
     (case truck_locations_body p db now car_filter date_from date_to of
        Inl e \<Rightarrow> []
      | Inr features \<Rightarrow> features)"

section \<open>The request handlers\<close>

text \<open>A query parameter is a string or absent (\<^verbatim>\<open>Optional[str]\<close>).\<close>

definition of_query :: "ustr option \<Rightarrow> json" where
  "of_query q = (case q of None \<Rightarrow> JNull | Some s \<Rightarrow> JStr s)"

text \<open>\<^verbatim>\<open>GET /api/trucks\<close>: the features of the returned collection.\<close>

definition get_trucks ::
  "platform \<Rightarrow> database \<Rightarrow> int \<Rightarrow> ustr option \<Rightarrow> ustr option \<Rightarrow> ustr option
     \<Rightarrow> Feature list" where
  "get_trucks p db now car_q date_from_q date_to_q =
     get_truck_locations p db now (of_query car_q) (of_query date_from_q) (of_query date_to_q)"

text \<open>
  \<^verbatim>\<open>GET /api/trucks/{car_id}\<close>: every exception of the body is raised again as
  \<^verbatim>\<open>HTTPException(status_code=500)\<close>.
\<close>

definition history_clauses :: "ustr \<Rightarrow> ustr option \<Rightarrow> ustr option \<Rightarrow> clause list" where
  "history_clauses car_id date_from_q date_to_q =
     CarEq (JStr car_id) # date_clauses DateGe (of_query date_from_q)
       @ date_clauses DateLe (of_query date_to_q)"

definition truck_history_body ::
  "platform \<Rightarrow> database \<Rightarrow> ustr \<Rightarrow> ustr option \<Rightarrow> ustr option
     \<Rightarrow> py_exception + PositionRecord list" where
  "truck_history_body p db car_id date_from_q date_to_q =
     (case get_db_connection db of
        Inl e \<Rightarrow> Inl e
      | Inr table \<Rightarrow> history_records p (history_clauses car_id date_from_q date_to_q) table)"

definition get_truck_history ::
  "platform \<Rightarrow> database \<Rightarrow> ustr \<Rightarrow> ustr option \<Rightarrow> ustr option
     \<Rightarrow> py_exception + PositionRecord list" where
  "get_truck_history p db car_id date_from_q date_to_q =
     (case truck_history_body p db car_id date_from_q date_to_q of
        Inl e \<Rightarrow> Inl (HTTPException 500)
      | Inr rows \<Rightarrow> Inr rows)"

section \<open>The live session: \<^verbatim>\<open>websocket_endpoint\<close>\<close>

text \<open>The three filter variables of one connection.\<close>

record filter_state =
  car_filter :: json
  date_from :: json
  date_to :: json

text \<open>
  What \<^verbatim>\<open>asyncio.wait_for(websocket.receive_json(), timeout=0.01)\<close> does in one cycle:
  it times out, it raises (the frame is no JSON text, or the client has gone), or it
  returns the decoded value.
\<close>

datatype received = TimedOut | ReceiveRaised | Data json

text \<open>
  The statements under \<^verbatim>\<open>if data and 'filters' in data:\<close>. The three assignments run in
  turn, so an exception leaves the variables assigned before it changed; the result is
  the variables and the exception that ended the block, if any.
\<close>

definition update_filters :: "filter_state \<Rightarrow> json \<Rightarrow> filter_state \<times> py_exception option" where
  "update_filters f data =
     (if \<not> truthy data then (f, None)
      else
        (case py_in ''filters'' data of
           Inl e \<Rightarrow> (f, Some e)
         | Inr False \<Rightarrow> (f, None)
         | Inr True \<Rightarrow>
             (case py_getitem data ''filters'' of
                Inl e \<Rightarrow> (f, Some e)
              | Inr filters \<Rightarrow>
                  (case py_get filters ''car'' (car_filter f) of
                     Inl e \<Rightarrow> (f, Some e)
                   | Inr c \<Rightarrow>
                       (let f1 = f\<lparr>car_filter := c\<rparr> in
                        case py_get filters ''dateFrom'' (date_from f1) of
                          Inl e \<Rightarrow> (f1, Some e)
                        | Inr d1 \<Rightarrow>
                            (let f2 = f1\<lparr>date_from := d1\<rparr> in
                             case py_get filters ''dateTo'' (date_to f2) of
                               Inl e \<Rightarrow> (f2, Some e)
                             | Inr d2 \<Rightarrow> (f2\<lparr>date_to := d2\<rparr>, None)))))))"

text \<open>
  The inner \<^verbatim>\<open>try\<close>: a timeout passes, any other exception is printed, and the loop goes
  on with the filter variables as they are by then.
\<close>

definition read_client :: "filter_state \<Rightarrow> received \<Rightarrow> filter_state" where
  "read_client f r =
     (case r of
        TimedOut \<Rightarrow> f
      | ReceiveRaised \<Rightarrow> f
      | Data data \<Rightarrow> fst (update_filters f data))"

text \<open>
  \<^verbatim>\<open>status_counts\<close> is a dict, and \<^verbatim>\<open>status_counts[status] += 1\<close> raises \<^verbatim>\<open>KeyError\<close> on a
  key it does not hold.
\<close>

definition status_counts_init :: "MotionState \<rightharpoonup> int" where
  "status_counts_init = [Moving \<mapsto> 0, Idle \<mapsto> 0, Stopped \<mapsto> 0]"

fun count_statuses ::
  "(MotionState \<rightharpoonup> int) \<Rightarrow> Feature list \<Rightarrow> py_exception + (MotionState \<rightharpoonup> int)" where
  "count_statuses status_counts [] = Inr status_counts"
| "count_statuses status_counts (feature # features) =
     (case status_counts (prop_status feature) of
        None \<Rightarrow> Inl KeyError
      | Some n \<Rightarrow>
          count_statuses (status_counts(prop_status feature \<mapsto> n + 1)) features)"

text \<open>The message of \<^verbatim>\<open>send_json\<close>; its \<^verbatim>\<open>type\<close> is always \<^verbatim>\<open>FeatureCollection\<close>.\<close>

record Snapshot =
  features :: "Feature list"
  counts :: "MotionState \<rightharpoonup> int"

datatype session_state = Connecting | Streaming | Closed

text \<open>
  What one cycle meets: the outcome of the read, the database, the clock, and whether the
  client socket takes the message (\<^verbatim>\<open>send_json\<close> raises otherwise).
\<close>

record cycle_input =
  client :: received
  db :: database
  clock :: int
  send_ok :: bool

text \<open>
  One turn of \<^verbatim>\<open>while True\<close>: the filter variables after it, the message sent (if one
  was), and the state of the session. An exception outside the inner \<^verbatim>\<open>try\<close> reaches
  \<^verbatim>\<open>break\<close>, and the socket is closed.
\<close>

definition websocket_cycle ::
  "platform \<Rightarrow> filter_state \<Rightarrow> cycle_input \<Rightarrow> filter_state \<times> Snapshot option \<times> session_state" where
  "websocket_cycle p f i =
     (let f' = read_client f (client i);
          fs = get_truck_locations p (db i) (clock i) (car_filter f') (date_from f') (date_to f')
      in case count_statuses status_counts_init fs of
           Inl e \<Rightarrow> (f', None, Closed)
         | Inr status_counts \<Rightarrow>
             (if send_ok i then (f', Some \<lparr>features = fs, counts = status_counts\<rparr>, Streaming)
              else (f', None, Closed)))"

text \<open>
  The endpoint after \<^verbatim>\<open>accept\<close>, run over the cycles it meets: the messages sent, in
  order, and the state it is in afterwards. The loop has no exit but \<^verbatim>\<open>break\<close>, so the list
  of cycles bounds the observation, not the session.
\<close>

fun websocket_endpoint ::
  "platform \<Rightarrow> filter_state \<Rightarrow> cycle_input list \<Rightarrow> Snapshot list \<times> session_state" where
  "websocket_endpoint p f [] = ([], Streaming)"
| "websocket_endpoint p f (i # rest) =
     (case websocket_cycle p f i of
        (f', Some snapshot, Streaming) \<Rightarrow>
          (let (sent, state) = websocket_endpoint p f' rest in (snapshot # sent, state))
      | (f', Some snapshot, _) \<Rightarrow> ([snapshot], Closed)
      | (f', None, _) \<Rightarrow> ([], Closed))"

section \<open>The filter as the data model describes it\<close>

text \<open>
  These definitions follow the data model and the interface description, not the
  handlers. A filter is a set of vehicle ids (empty: all vehicles) and two optional,
  inclusive date bounds; a record satisfies it when its vehicle is selected and its date
  lies within the bounds.
\<close>

record Filter =
  vehicleIds :: "ustr set"
  dateFrom :: "int option"
  dateTo :: "int option"

definition satisfies :: "Filter \<Rightarrow> PositionRecord \<Rightarrow> bool" where
  "satisfies F r =
     ((vehicleIds F = {} \<or> car r \<in> vehicleIds F)
      \<and> (case dateFrom F of None \<Rightarrow> True | Some d \<Rightarrow> d \<le> date r)
      \<and> (case dateTo F of None \<Rightarrow> True | Some d \<Rightarrow> date r \<le> d))"

text \<open>
  The filter that a request asks for. The \<^verbatim>\<open>car\<close> parameter is a single id or a
  comma-separated list, whose tokens are trimmed and dropped when empty; no parameter, or an
  empty one, selects all vehicles. A date parameter is absent, empty, or a calendar date as
  the database reads it; a request whose date is no date asks for no filter at all.
\<close>

definition requested_ids :: "ustr option \<Rightarrow> ustr set" where
  "requested_ids q =
     (case q of
        None \<Rightarrow> {}
      | Some s \<Rightarrow>
          if comma \<in> set s then set (filter (\<lambda>t. t \<noteq> []) (map strip (split_comma s)))
          else if s = [] then {} else {s})"

definition requested_date :: "platform \<Rightarrow> ustr option \<Rightarrow> int option option" where
  "requested_date p q =
     (case q of
        None \<Rightarrow> Some None
      | Some s \<Rightarrow>
          if s = [] then Some None
          else (case date_param p (JStr s) of None \<Rightarrow> None | Some d \<Rightarrow> Some (Some d)))"

definition request_filter ::
  "platform \<Rightarrow> ustr option \<Rightarrow> ustr option \<Rightarrow> ustr option \<Rightarrow> Filter option" where
  "request_filter p car_q date_from_q date_to_q =
     (case requested_date p date_from_q of
        None \<Rightarrow> None
      | Some lo \<Rightarrow>
          (case requested_date p date_to_q of
             None \<Rightarrow> None
           | Some hi \<Rightarrow>
               Some \<lparr>vehicleIds = requested_ids car_q, dateFrom = lo, dateTo = hi\<rparr>))"

text \<open>
  A repository failure as the error handling design names it: the database cannot be
  reached, or it rejects the query that the handler sends.
\<close>

definition live_repository_failure ::
  "platform \<Rightarrow> database \<Rightarrow> json \<Rightarrow> json \<Rightarrow> json \<Rightarrow> bool" where
  "live_repository_failure p store c d1 d2 =
     (case get_db_connection store of
        Inl e \<Rightarrow> True
      | Inr table \<Rightarrow>
          (case build_clauses c d1 d2 of
             Inl e \<Rightarrow> False
           | Inr cs \<Rightarrow> (case latest_records p cs table of Inl e \<Rightarrow> True | Inr rows \<Rightarrow> False)))"

definition history_repository_failure ::
  "platform \<Rightarrow> database \<Rightarrow> ustr \<Rightarrow> ustr option \<Rightarrow> ustr option \<Rightarrow> bool" where
  "history_repository_failure p store car_id date_from_q date_to_q =
     (case get_db_connection store of
        Inl e \<Rightarrow> True
      | Inr table \<Rightarrow>
          (case history_records p (history_clauses car_id date_from_q date_to_q) table of
             Inl e \<Rightarrow> True
           | Inr rows \<Rightarrow> False))"

section \<open>Filter updates as the interface describes them\<close>

text \<open>
  The live channel accepts \<^verbatim>\<open>{filters: {car?, dateFrom?, dateTo?}}\<close>; \<open>filters_of\<close> gives the
  members of the inner object of a message of that shape.
\<close>

fun filters_of :: "json \<Rightarrow> (string \<times> json) list option" where
  "filters_of (JObj kvs) =
     (case dict_lookup kvs ''filters'' of Some (JObj fs) \<Rightarrow> Some fs | _ \<Rightarrow> None)"
| "filters_of _ = None"

text \<open>
  A well-formed update has that shape and members of the types of the data model: \<^verbatim>\<open>car\<close>
  a string (or \<^verbatim>\<open>null\<close>), \<^verbatim>\<open>dateFrom\<close> and \<^verbatim>\<open>dateTo\<close> a calendar date as the database reads it
  (or \<^verbatim>\<open>null\<close>). A malformed client message is a frame that \<^verbatim>\<open>receive_json\<close> cannot decode, or
  a decoded value that is no well-formed update. A timeout is no message.
\<close>

definition car_value_ok :: "json \<Rightarrow> bool" where
  "car_value_ok v = (case v of JNull \<Rightarrow> True | JStr s \<Rightarrow> True | _ \<Rightarrow> False)"

definition date_value_ok :: "platform \<Rightarrow> json \<Rightarrow> bool" where
  "date_value_ok p v =
     (case v of JNull \<Rightarrow> True | JStr s \<Rightarrow> date_param p (JStr s) \<noteq> None | _ \<Rightarrow> False)"

definition member_ok :: "(json \<Rightarrow> bool) \<Rightarrow> (string \<times> json) list \<Rightarrow> string \<Rightarrow> bool" where
  "member_ok ok fs k = (case dict_lookup fs k of None \<Rightarrow> True | Some v \<Rightarrow> ok v)"

definition well_formed_update :: "platform \<Rightarrow> json \<Rightarrow> bool" where
  "well_formed_update p data =
     (case filters_of data of
        None \<Rightarrow> False
      | Some fs \<Rightarrow>
          member_ok car_value_ok fs ''car'' \<and> member_ok (date_value_ok p) fs ''dateFrom''
          \<and> member_ok (date_value_ok p) fs ''dateTo'')"

fun malformed :: "platform \<Rightarrow> received \<Rightarrow> bool" where
  "malformed p TimedOut = False"
| "malformed p ReceiveRaised = True"
| "malformed p (Data data) = (\<not> well_formed_update p data)"

text \<open>
  What the handler itself tells apart: a frame that cannot be decoded, or a decoded value
  without a \<^verbatim>\<open>filters\<close> object.
\<close>

fun not_an_update :: "received \<Rightarrow> bool" where
  "not_an_update TimedOut = False"
| "not_an_update ReceiveRaised = True"
| "not_an_update (Data data) = (filters_of data = None)"

text \<open>
  The value a merged field takes: the member of the update when present, else the prior value.
\<close>

definition merged :: "(string \<times> json) list \<Rightarrow> string \<Rightarrow> json \<Rightarrow> json" where
  "merged fs k prior = (case dict_lookup fs k of None \<Rightarrow> prior | Some v \<Rightarrow> v)"

text \<open>
  A pushed message is complete when the three counts are present and add up to its features.
\<close>

definition counts_complete :: "Snapshot \<Rightarrow> bool" where
  "counts_complete s =
     (\<exists>a b c. counts s Moving = Some a \<and> counts s Idle = Some b \<and> counts s Stopped = Some c
        \<and> a + b + c = int (length (features s)))"

text \<open>
  The features that a cycle asks for, under the filter as it is after the read.
\<close>

definition cycle_features :: "platform \<Rightarrow> filter_state \<Rightarrow> cycle_input \<Rightarrow> Feature list" where
  "cycle_features p f i =
     get_truck_locations p (db i) (clock i) (car_filter (read_client f (client i)))
       (date_from (read_client f (client i))) (date_to (read_client f (client i)))"

definition empty_snapshot :: Snapshot where
  "empty_snapshot = \<lparr>features = [], counts = [Moving \<mapsto> 0, Idle \<mapsto> 0, Stopped \<mapsto> 0]\<rparr>"

text \<open>
  The rows in the order of \<^verbatim>\<open>ORDER BY car, "timestamp" DESC\<close>, named for the proofs.
\<close>

definition sort_rows :: "PositionRecord list \<Rightarrow> PositionRecord list" where
  "sort_rows rows = sort_key (\<lambda>r. (car r, - timestamp r)) rows"

text \<open>
  Every timestamp stored in the table can be rendered by \<^verbatim>\<open>datetime.fromtimestamp\<close>, so that
  building a feature never raises.
\<close>

definition timestamps_in_range :: "platform \<Rightarrow> database \<Rightarrow> bool" where
  "timestamps_in_range p store =
     (case store of
        Unreachable \<Rightarrow> True
      | Reachable table \<Rightarrow> list_all (\<lambda>r. fromtimestamp p (timestamp r) \<noteq> None) table)"

section \<open>A concrete deployment, for evaluating the model\<close>

text \<open>
  A platform that takes every string the driver can encode, refuses lists, knows two
  dates and formats every timestamp of the years 1970 to 9999 (the rendering is a fixed
  string: it plays no part below); a table with two vehicles; and a session filtering on
  vehicle \<^verbatim>\<open>T1\<close>.
\<close>

definition example_platform :: platform where
  "example_platform =
     \<lparr>accepts_text = (\<lambda>s. True),
      list_as_text = (\<lambda>xs. None),
      parse_date = (\<lambda>s. if s = ascii ''2023-11-14'' then Some 19675
                          else if s = ascii ''2023-11-15'' then Some 19676 else None),
      fromtimestamp = (\<lambda>t. if 0 \<le> t \<and> t < 253402300800 then Some ''local time'' else None)\<rparr>"

definition example_now :: int where
  "example_now = 1700000000"

definition example_table :: "PositionRecord list" where
  "example_table =
     [\<lparr>car = ascii ''T1'', latitude = 24.86, longitude = 67.01, timestamp = 1699990000, date = 19675\<rparr>,
      \<lparr>car = ascii ''T2'', latitude = 31.52, longitude = 74.35, timestamp = 1699995000, date = 19675\<rparr>,
      \<lparr>car = ascii ''T1'', latitude = 24.90, longitude = 67.08, timestamp = 1699999900, date = 19676\<rparr>]"

definition example_filter :: filter_state where
  "example_filter = \<lparr>car_filter = JStr (ascii ''T1''), date_from = JStr (ascii ''2023-11-14''), date_to = JNull\<rparr>"

definition example_cycle :: "received \<Rightarrow> database \<Rightarrow> cycle_input" where
  "example_cycle r d = \<lparr>client = r, db = d, clock = example_now, send_ok = True\<rparr>"

definition example_feature :: Feature where
  "example_feature =
     \<lparr>coordinates = (67.08, 24.90), prop_id = ascii ''T1'', prop_status = Moving,
      prop_timestamp = 1699999900, prop_date = 19676, prop_last_update = ''local time''\<rparr>"

definition example_snapshot :: Snapshot where
  "example_snapshot =
     \<lparr>features = [example_feature], counts = [Moving \<mapsto> 1, Idle \<mapsto> 0, Stopped \<mapsto> 0]\<rparr>"

definition example_update :: json where
  "example_update = JObj [(''filters'', JObj [(''car'', JStr (ascii ''X''))])]"

definition example_null_update :: json where
  "example_null_update = JObj [(''filters'', JObj [(''car'', JNull), (''dateFrom'', JNull)])]"

text \<open>
  An update whose \<^verbatim>\<open>car\<close> is a number.
\<close>

definition ill_typed_update :: json where
  "ill_typed_update = JObj [(''filters'', JObj [(''car'', JNum 5)])]"

text \<open>
  The same vehicles, with the last report of \<^verbatim>\<open>T2\<close> stamped in milliseconds instead of
  seconds: a timestamp in the year 55841, which \<^verbatim>\<open>datetime.fromtimestamp\<close> refuses.
\<close>

definition corrupt_table :: "PositionRecord list" where
  "corrupt_table =
     [\<lparr>car = ascii ''T1'', latitude = 24.90, longitude = 67.08, timestamp = 1699999900, date = 19676\<rparr>,
      \<lparr>car = ascii ''T2'', latitude = 31.52, longitude = 74.35, timestamp = 1699999950000, date = 19676\<rparr>]"

section \<open>Properties of the status classifier\<close>

lemma determine_status_seconds:
  "determine_status now t =
     (if now - t > 3600 then Stopped else if now - t > 1800 then Idle else Moving)"
  by (simp add: determine_status_def STALE_THRESHOLD_HOURS_def IDLE_THRESHOLD_HOURS_def
      Let_def field_simps)

text \<open>
  C1. With \<open>ageHours = (now - t) / 3600\<close>, the classifier answers stopped when
  \<open>ageHours > 1.0\<close>, otherwise idle when \<open>ageHours > 0.5\<close>, otherwise moving. An age of
  exactly one hour is idle (one second more is stopped), an age of zero is moving, and a timestamp in the future
  (negative age) is moving.
\<close>

theorem determine_status_rule:
  "determine_status now t =
     (if real_of_int (now - t) / 3600 > 1.0 then Stopped
      else if real_of_int (now - t) / 3600 > 0.5 then Idle
      else Moving)
   \<and> determine_status (t + 3600) t = Idle
   \<and> determine_status (t + 3601) t = Stopped
   \<and> determine_status t t = Moving
   \<and> (now < t \<longrightarrow> determine_status now t = Moving)"
proof -
  have rule: "determine_status now t =
     (if real_of_int (now - t) / 3600 > 1.0 then Stopped
      else if real_of_int (now - t) / 3600 > 0.5 then Idle
      else Moving)"
    by (simp add: determine_status_def STALE_THRESHOLD_HOURS_def IDLE_THRESHOLD_HOURS_def
        Let_def)
  have hour: "determine_status (t + 3600) t = Idle"
    by (simp add: determine_status_seconds)
  have more: "determine_status (t + 3601) t = Stopped"
    by (simp add: determine_status_seconds)
  have zero: "determine_status t t = Moving"
    by (simp add: determine_status_seconds)
  have future: "now < t \<longrightarrow> determine_status now t = Moving"
    by (simp add: determine_status_seconds)
  from rule hour more zero future show ?thesis by blast
qed

theorem determine_status_rule_witness:
  "(1700000000::int) < 1700000060 \<and> determine_status 1700000000 1700000060 = Moving"
  using determine_status_rule [of 1700000000 1700000060] by simp

text \<open>
  C2 (as stated: an age of exactly half an hour is idle). The source compares with a
  strict \<open>>\<close> against \<open>IDLE_THRESHOLD_HOURS\<close>, so half an hour is still moving.
\<close>

theorem determine_status_half_hour_counterexample:
  "determine_status 1800 0 \<noteq> Idle"
  by (simp add: determine_status_seconds)

text \<open>
  C2 (amended). When the age \<open>now - t\<close> is exactly half an hour (1800 seconds), the
  classifier answers moving; idle begins strictly above half an hour.
\<close>

theorem determine_status_half_hour:
  "now - t = 1800 \<Longrightarrow> determine_status now t = Moving"
  by (simp add: determine_status_seconds)

theorem determine_status_half_hour_witness:
  "(1700001800::int) - 1700000000 = 1800 \<and> determine_status 1700001800 1700000000 = Moving"
  using determine_status_half_hour [of 1700001800 1700000000] by simp

section \<open>Evaluation\<close>

lemmas example_defs =
  example_platform_def example_now_def example_table_def example_filter_def example_cycle_def

lemmas query_defs =
  get_truck_locations_def truck_locations_body_def get_db_connection_def build_clauses_def
  car_clauses_def date_clauses_def vehicle_ids_of_def strip_def is_space_def latest_records_def
  where_clause_def make_feature_def determine_status_seconds ascii_def param_ok_def
  get_trucks_def of_query_def

text \<open>
  \<^verbatim>\<open>strip()\<close> removes a no-break space; a list that does not hold \<^verbatim>\<open>","\<close> is bound to
  \<^verbatim>\<open>car = %s\<close> as it is, and one that does raises at \<^verbatim>\<open>.split\<close>.
\<close>

lemma strip_no_break_space: "strip [160] = [] \<and> strip (160 # ascii ''T1'') = ascii ''T1''"
  by (simp add: strip_def is_space_def ascii_def)

lemma list_filter_is_bound:
  "car_clauses (JArr [JStr (ascii ''T1'')]) = Inr [CarEq (JArr [JStr (ascii ''T1'')])]
   \<and> car_clauses (JArr [JStr (ascii '','')]) = Inl AttributeError"
  by (simp add: car_clauses_def ascii_def)

section \<open>Properties of the snapshot query\<close>

subsection \<open>Ordering and \<^verbatim>\<open>DISTINCT ON\<close>\<close>

lemma sorted_by_car:
  "sorted (map (\<lambda>r. (car r, - timestamp r)) ys) \<Longrightarrow> sorted (map car ys)"
  by (induction ys) (auto simp: less_eq_prod_def)

lemma sort_rows_sorted: "sorted (map (\<lambda>r. (car r, - timestamp r)) (sort_rows ys))"
  by (simp add: sort_rows_def)

lemma sort_rows_set: "set (sort_rows ys) = set ys"
  by (simp add: sort_rows_def)


lemma distinct_on_car_subset: "set (distinct_on_car ys) \<subseteq> set ys"
  by (induction ys rule: distinct_on_car.induct) auto

lemma distinct_on_car_cars: "car ` set (distinct_on_car ys) = car ` set ys"
  by (induction ys rule: distinct_on_car.induct) auto

lemma distinct_on_car_distinct:
  "sorted (map car ys) \<Longrightarrow> distinct (map car (distinct_on_car ys))"
proof (induction ys rule: distinct_on_car.induct)
  case (3 r r' rs)
  show ?case
  proof (cases "car r = car r'")
    case True
    with 3 show ?thesis by simp
  next
    case False
    from "3.prems" False have later: "\<forall>x \<in> set (r' # rs). car r < car x"
      by auto
    with distinct_on_car_subset [of "r' # rs"] have "car r \<notin> car ` set (distinct_on_car (r' # rs))"
      by fastforce
    with 3 False show ?thesis by simp
  qed
qed simp_all

lemma distinct_on_car_latest:
  assumes "sorted (map (\<lambda>r. (car r, - timestamp r)) ys)"
    and "x \<in> set (distinct_on_car ys)" and "y \<in> set ys" and "car y = car x"
  shows "timestamp y \<le> timestamp x"
  using assms
proof (induction ys arbitrary: x y rule: distinct_on_car.induct)
  case (3 r r' rs)
  show ?case
  proof (cases "car r = car r'")
    case True
    from "3.prems"(1) have s: "sorted (map (\<lambda>r. (car r, - timestamp r)) (r # rs))"
      by simp
    from "3.prems"(2) True have x: "x \<in> set (distinct_on_car (r # rs))"
      by simp
    show ?thesis
    proof (cases "y = r'")
      case False
      with "3.prems"(3) have "y \<in> set (r # rs)" by auto
      from "3.IH"(1) [OF True s x this "3.prems"(4)] show ?thesis .
    next
      case y: True
      from "3.prems"(1) True have "timestamp r' \<le> timestamp r"
        by (simp add: less_eq_prod_def)
      moreover from y True "3.prems"(4) have cx: "car r = car x" by simp
      have "r \<in> set (r # rs)" by simp
      from "3.IH"(1) [OF True s x this cx] have "timestamp r \<le> timestamp x" .
      ultimately show ?thesis using y by simp
    qed
  next
    case False
    from "3.prems"(1) have s: "sorted (map (\<lambda>r. (car r, - timestamp r)) (r' # rs))"
      by simp
    from sorted_by_car [OF "3.prems"(1)] False have later: "\<forall>z \<in> set (r' # rs). car r < car z"
      by auto
    from "3.prems"(2) False have "x = r \<or> x \<in> set (distinct_on_car (r' # rs))"
      by simp
    then show ?thesis
    proof
      assume "x = r"
      with later "3.prems"(3,4) show ?thesis by auto
    next
      assume x: "x \<in> set (distinct_on_car (r' # rs))"
      with distinct_on_car_subset [of "r' # rs"] later have "car r < car x" by blast
      with "3.prems"(3,4) have "y \<in> set (r' # rs)" by auto
      from "3.IH"(2) [OF False s x this "3.prems"(4)] show ?thesis .
    qed
  qed
qed simp_all


lemma latest_records_rows:
  "latest_records p cs table =
     (if list_all (clause_valid p) cs
      then Inr (distinct_on_car (sort_rows (filter (where_clause p cs) table)))
      else Inl DatabaseError)"
  by (simp add: latest_records_def sort_rows_def)

lemma latest_records_distinct:
  assumes "latest_records p cs table = Inr rows"
  shows "distinct (map car rows)"
proof -
  from assms have rows: "rows = distinct_on_car (sort_rows (filter (where_clause p cs) table))"
    by (simp add: latest_records_rows split: if_splits)
  from sorted_by_car [OF sort_rows_sorted] show ?thesis
    unfolding rows by (rule distinct_on_car_distinct)
qed

lemma latest_records_subset:
  assumes "latest_records p cs table = Inr rows" and "x \<in> set rows"
  shows "x \<in> set table \<and> where_clause p cs x"
proof -
  from assms(1) have rows: "rows = distinct_on_car (sort_rows (filter (where_clause p cs) table))"
    by (simp add: latest_records_rows split: if_splits)
  from assms(2) distinct_on_car_subset have "x \<in> set (sort_rows (filter (where_clause p cs) table))"
    unfolding rows by blast
  then show ?thesis by (simp add: sort_rows_set)
qed

lemma latest_records_latest:
  assumes "latest_records p cs table = Inr rows" and "x \<in> set rows"
    and "y \<in> set table" and "where_clause p cs y" and "car y = car x"
  shows "timestamp y \<le> timestamp x"
proof -
  from assms(1) have rows: "rows = distinct_on_car (sort_rows (filter (where_clause p cs) table))"
    by (simp add: latest_records_rows split: if_splits)
  from assms(3,4) have y: "y \<in> set (sort_rows (filter (where_clause p cs) table))"
    by (simp add: sort_rows_set)
  from assms(2) have x: "x \<in> set (distinct_on_car (sort_rows (filter (where_clause p cs) table)))"
    by (simp add: rows)
  from distinct_on_car_latest [OF sort_rows_sorted x y assms(5)] show ?thesis .
qed

lemma latest_records_cars:
  assumes "latest_records p cs table = Inr rows"
    and "y \<in> set table" and "where_clause p cs y"
  shows "car y \<in> car ` set rows"
proof -
  from assms(1) have rows: "rows = distinct_on_car (sort_rows (filter (where_clause p cs) table))"
    by (simp add: latest_records_rows split: if_splits)
  from assms(2,3) show ?thesis
    by (simp add: rows distinct_on_car_cars sort_rows_set)
qed

subsection \<open>From rows to features\<close>

lemma make_feature_id: "make_feature p now r = Inr f \<Longrightarrow> prop_id f = car r"
  by (auto simp: make_feature_def split: option.splits)

lemma make_feature_in_range:
  "fromtimestamp p (timestamp r) \<noteq> None \<Longrightarrow> prop_id (projr (make_feature p now r)) = car r"
  by (auto simp: make_feature_def split: option.splits)

lemma build_features_ids:
  "build_features p now rows = Inr fs \<Longrightarrow> map prop_id fs = map car rows"
proof (induction rows arbitrary: fs)
  case Nil
  then show ?case by simp
next
  case (Cons r rows)
  then show ?case
    by (auto split: sum.splits dest: make_feature_id)
qed

lemma build_features_source:
  "build_features p now rows = Inr fs \<Longrightarrow> f \<in> set fs \<Longrightarrow>
     \<exists>r \<in> set rows. make_feature p now r = Inr f"
proof (induction rows arbitrary: fs)
  case Nil
  then show ?case by simp
next
  case (Cons r rows)
  then show ?case
    by (fastforce split: sum.splits)
qed

lemma build_features_in_range:
  "list_all (\<lambda>r. fromtimestamp p (timestamp r) \<noteq> None) rows \<Longrightarrow>
     build_features p now rows = Inr (map (\<lambda>r. projr (make_feature p now r)) rows)"
  by (induction rows) (auto simp: make_feature_def split: option.splits)

lemma get_truck_locations_cases:
  "get_truck_locations p store now c d1 d2 = []
   \<or> (\<exists>table cs rows. store = Reachable table \<and> build_clauses c d1 d2 = Inr cs
         \<and> latest_records p cs table = Inr rows
         \<and> build_features p now rows = Inr (get_truck_locations p store now c d1 d2))"
  by (cases store)
    (auto simp: get_truck_locations_def truck_locations_body_def get_db_connection_def
      split: sum.splits)


lemma get_truck_locations_in_range:
  assumes "timestamps_in_range p (Reachable table)"
    and "build_clauses c d1 d2 = Inr cs" and "list_all (clause_valid p) cs"
  shows "get_truck_locations p (Reachable table) now c d1 d2 =
           map (\<lambda>r. projr (make_feature p now r))
             (distinct_on_car (sort_rows (filter (where_clause p cs) table)))"
proof -
  have "set (distinct_on_car (sort_rows (filter (where_clause p cs) table))) \<subseteq> set table"
    using distinct_on_car_subset [of "sort_rows (filter (where_clause p cs) table)"]
    by (auto simp: sort_rows_set)
  with assms(1) have "list_all (\<lambda>r. fromtimestamp p (timestamp r) \<noteq> None)
      (distinct_on_car (sort_rows (filter (where_clause p cs) table)))"
    by (auto simp: timestamps_in_range_def list_all_iff)
  from build_features_in_range [OF this] assms(2,3) show ?thesis
    by (simp add: get_truck_locations_def truck_locations_body_def get_db_connection_def
        latest_records_rows)
qed

lemma get_truck_locations_invalid:
  assumes "build_clauses c d1 d2 = Inr cs" and "\<not> list_all (clause_valid p) cs"
  shows "get_truck_locations p store now c d1 d2 = []"
  using assms
  by (simp add: get_truck_locations_def truck_locations_body_def latest_records_rows
      split: sum.splits)

lemma get_truck_locations_no_clauses:
  assumes "build_clauses c d1 d2 = Inl e"
  shows "get_truck_locations p store now c d1 d2 = []"
  using assms
  by (simp add: get_truck_locations_def truck_locations_body_def split: sum.splits)

lemma example_locations:
  "get_truck_locations example_platform (Reachable example_table) example_now
     (JStr (ascii ''T1'')) (JStr (ascii ''2023-11-14'')) JNull = [example_feature]"
  by (simp add: example_feature_def query_defs example_defs)

subsection \<open>The conditions of a request and the filter it asks for\<close>

lemma startswith_single: "startswith s [c] = (s \<noteq> [] \<and> hd s = c)"
  by (cases s) auto

lemma substring_in_single: "substring_in [c] s = (c \<in> set s)"
  by (induction s) (auto simp: startswith_single)

lemma py_in_comma: "py_in '','' (JStr s) = Inr (comma \<in> set s)"
  by (simp add: ascii_def substring_in_single)

lemma car_clauses_string:
  "car_clauses (JStr s) =
     (if s = [] then Inr []
      else if comma \<in> set s
        then (if vehicle_ids_of s \<noteq> [] then Inr [CarIn (vehicle_ids_of s)] else Inr [])
        else Inr [CarEq (JStr s)])"
  by (simp add: car_clauses_def py_in_comma Let_def del: py_in.simps)

lemma car_clauses_none: "car_clauses JNull = Inr []"
  by (simp add: car_clauses_def)

lemma car_clauses_blank:
  assumes "s = [] \<or> (comma \<in> set s \<and> list_all (\<lambda>vid. strip vid = []) (split_comma s))"
  shows "car_clauses (JStr s) = Inr []"
  using assms
  by (auto simp: car_clauses_string vehicle_ids_of_def list_all_iff filter_empty_conv)

lemma build_clauses_car:
  "car_clauses c = Inr cc \<Longrightarrow>
     build_clauses c d1 d2 = Inr (cc @ date_clauses DateGe d1 @ date_clauses DateLe d2)"
  by (simp add: build_clauses_def)

lemma of_query_None: "of_query None = JNull"
  by (simp add: of_query_def)

lemma vehicle_ids_of_set:
  "set (vehicle_ids_of s) = set (filter (\<lambda>t. t \<noteq> []) (map strip (split_comma s)))"
  by (auto simp: vehicle_ids_of_def)

lemma requested_ids_comma:
  "comma \<in> set s \<Longrightarrow> requested_ids (Some s) = set (vehicle_ids_of s)"
  by (simp add: requested_ids_def vehicle_ids_of_set)

lemma car_clauses_query:
  "\<exists>cc. car_clauses (of_query car_q) = Inr cc
     \<and> (list_all (clause_valid p) cc \<longrightarrow>
          (\<forall>r. list_all (\<lambda>c. clause_holds p c r) cc =
                 (requested_ids car_q = {} \<or> car r \<in> requested_ids car_q)))"
proof (cases car_q)
  case None
  then show ?thesis
    by (simp add: of_query_def car_clauses_none requested_ids_def)
next
  case (Some s)
  show ?thesis
  proof (cases "s = []")
    case True
    with Some show ?thesis
      by (simp add: of_query_def car_clauses_string requested_ids_def)
  next
    case ne: False
    show ?thesis
    proof (cases "comma \<in> set s")
      case False
      with Some ne show ?thesis
        by (auto simp: of_query_def car_clauses_string requested_ids_def)
    next
      case True
      show ?thesis
      proof (cases "vehicle_ids_of s = []")
        case e: True
        from True e have "requested_ids (Some s) = {}"
          by (simp add: requested_ids_comma)
        with Some ne True e show ?thesis
          by (simp add: of_query_def car_clauses_string)
      next
        case n: False
        from True have ids: "requested_ids (Some s) = set (vehicle_ids_of s)"
          by (simp add: requested_ids_comma)
        from n have "set (vehicle_ids_of s) \<noteq> {}" by simp
        with Some ne True n show ?thesis
          by (simp add: of_query_def car_clauses_string ids)
      qed
    qed
  qed
qed

lemma date_clauses_query_ge:
  "list_all (clause_valid p) (date_clauses DateGe (of_query q)) = (requested_date p q \<noteq> None)"
  "requested_date p q = Some lo \<Longrightarrow>
     list_all (\<lambda>c. clause_holds p c r) (date_clauses DateGe (of_query q)) =
       (case lo of None \<Rightarrow> True | Some d \<Rightarrow> d \<le> date r)"
  by (cases q; auto simp: date_clauses_def of_query_def requested_date_def
      split: option.splits if_splits)+

lemma date_clauses_query_le:
  "list_all (clause_valid p) (date_clauses DateLe (of_query q)) = (requested_date p q \<noteq> None)"
  "requested_date p q = Some hi \<Longrightarrow>
     list_all (\<lambda>c. clause_holds p c r) (date_clauses DateLe (of_query q)) =
       (case hi of None \<Rightarrow> True | Some d \<Rightarrow> date r \<le> d)"
  by (cases q; auto simp: date_clauses_def of_query_def requested_date_def
      split: option.splits if_splits)+

lemma build_clauses_request:
  assumes "build_clauses (of_query car_q) (of_query date_from_q) (of_query date_to_q) = Inr cs"
    and "list_all (clause_valid p) cs"
  shows "\<exists>F. request_filter p car_q date_from_q date_to_q = Some F
            \<and> (\<forall>r. where_clause p cs r = satisfies F r)"
proof -
  from car_clauses_query [of car_q p] obtain cc where cc: "car_clauses (of_query car_q) = Inr cc"
    and holds: "list_all (clause_valid p) cc \<longrightarrow>
          (\<forall>r. list_all (\<lambda>c. clause_holds p c r) cc =
                 (requested_ids car_q = {} \<or> car r \<in> requested_ids car_q))"
    by blast
  from build_clauses_car [OF cc, of "of_query date_from_q" "of_query date_to_q"] assms(1)
  have cs: "cs = cc @ date_clauses DateGe (of_query date_from_q)
                 @ date_clauses DateLe (of_query date_to_q)"
    by simp
  from assms(2) have v: "list_all (clause_valid p) cc"
    "requested_date p date_from_q \<noteq> None" "requested_date p date_to_q \<noteq> None"
    by (simp_all add: cs date_clauses_query_ge(1) date_clauses_query_le(1))
  then obtain lo hi where lo: "requested_date p date_from_q = Some lo"
    and hi: "requested_date p date_to_q = Some hi"
    by auto
  have "request_filter p car_q date_from_q date_to_q =
          Some \<lparr>vehicleIds = requested_ids car_q, dateFrom = lo, dateTo = hi\<rparr>"
    by (simp add: request_filter_def lo hi)
  moreover have "where_clause p cs r =
      satisfies \<lparr>vehicleIds = requested_ids car_q, dateFrom = lo, dateTo = hi\<rparr> r" for r
    using holds v(1)
    by (simp add: where_clause_def cs satisfies_def date_clauses_query_ge(2) [OF lo]
        date_clauses_query_le(2) [OF hi])
  ultimately show ?thesis by blast
qed

lemma example_request_filter:
  "request_filter example_platform (Some (ascii ''T1'')) (Some (ascii ''2023-11-14'')) None =
     Some \<lparr>vehicleIds = {ascii ''T1''}, dateFrom = Some 19675, dateTo = None\<rparr>"
  by (simp add: request_filter_def requested_date_def requested_ids_def example_platform_def
      param_ok_def ascii_def)

lemma get_truck_locations_distinct:
  "distinct (map prop_id (get_truck_locations p store now c d1 d2))"
proof -
  from get_truck_locations_cases [of p store now c d1 d2] show ?thesis
  proof
    assume "get_truck_locations p store now c d1 d2 = []"
    then show ?thesis by simp
  next
    assume "\<exists>table cs rows. store = Reachable table \<and> build_clauses c d1 d2 = Inr cs
         \<and> latest_records p cs table = Inr rows
         \<and> build_features p now rows = Inr (get_truck_locations p store now c d1 d2)"
    then obtain table cs rows where rows: "latest_records p cs table = Inr rows"
      and fs: "build_features p now rows = Inr (get_truck_locations p store now c d1 d2)"
      by blast
    from build_features_ids [OF fs] latest_records_distinct [OF rows] show ?thesis
      by simp
  qed
qed

text \<open>
  C3. Whatever filter a request asks for (vehicle ids, date bounds) and whatever the
  database holds, \<^verbatim>\<open>get_truck_locations\<close> returns at most one feature per vehicle id, and
  every feature it returns is built from a row of the table that satisfies that filter and
  whose timestamp is the greatest among the rows of the same vehicle that satisfy it.
\<close>

theorem one_latest_feature_per_vehicle:
  "distinct (map prop_id (get_truck_locations p store now c d1 d2))
   \<and> (\<forall>f \<in> set (get_truck_locations p store now
                   (of_query car_q) (of_query date_from_q) (of_query date_to_q)).
        \<exists>table F r. store = Reachable table
          \<and> request_filter p car_q date_from_q date_to_q = Some F
          \<and> r \<in> set table \<and> satisfies F r \<and> make_feature p now r = Inr f
          \<and> (\<forall>r' \<in> set table. satisfies F r' \<and> car r' = car r
                \<longrightarrow> timestamp r' \<le> timestamp r))"
proof -
  let ?fs = "get_truck_locations p store now
       (of_query car_q) (of_query date_from_q) (of_query date_to_q)"
  from get_truck_locations_cases [of p store now "of_query car_q" "of_query date_from_q"
      "of_query date_to_q"]
  show ?thesis
  proof
    assume "?fs = []"
    with get_truck_locations_distinct [of p store now c d1 d2] show ?thesis by simp
  next
    assume "\<exists>table cs rows. store = Reachable table
         \<and> build_clauses (of_query car_q) (of_query date_from_q) (of_query date_to_q) = Inr cs
         \<and> latest_records p cs table = Inr rows
         \<and> build_features p now rows = Inr ?fs"
    then obtain table cs rows where st: "store = Reachable table"
      and cs: "build_clauses (of_query car_q) (of_query date_from_q) (of_query date_to_q) = Inr cs"
      and rows: "latest_records p cs table = Inr rows"
      and fs: "build_features p now rows = Inr ?fs"
      by blast
    from rows have "list_all (clause_valid p) cs"
      by (simp add: latest_records_rows split: if_splits)
    from build_clauses_request [OF cs this] obtain F
      where F: "request_filter p car_q date_from_q date_to_q = Some F"
        and sat: "\<And>r. where_clause p cs r = satisfies F r"
      by blast
    have latest: "\<exists>table F r. store = Reachable table
          \<and> request_filter p car_q date_from_q date_to_q = Some F
          \<and> r \<in> set table \<and> satisfies F r \<and> make_feature p now r = Inr f
          \<and> (\<forall>r' \<in> set table. satisfies F r' \<and> car r' = car r
                \<longrightarrow> timestamp r' \<le> timestamp r)"
      if f: "f \<in> set ?fs" for f
    proof -
      from build_features_source [OF fs f] obtain r
        where r: "r \<in> set rows" and mk: "make_feature p now r = Inr f"
        by blast
      from latest_records_subset [OF rows r]
      have "r \<in> set table" and "satisfies F r" by (simp_all add: sat)
      moreover have "\<forall>r' \<in> set table. satisfies F r' \<and> car r' = car r
                \<longrightarrow> timestamp r' \<le> timestamp r"
        using latest_records_latest [OF rows r] by (simp add: sat)
      ultimately show ?thesis using st F mk by blast
    qed
    from get_truck_locations_distinct [of p store now c d1 d2] latest show ?thesis by blast
  qed
qed

theorem one_latest_feature_per_vehicle_witness:
  "example_feature \<in> set (get_truck_locations example_platform (Reachable example_table) example_now
       (of_query (Some (ascii ''T1''))) (of_query (Some (ascii ''2023-11-14''))) (of_query None))
   \<and> (\<exists>r. r \<in> set example_table
         \<and> satisfies \<lparr>vehicleIds = {ascii ''T1''}, dateFrom = Some 19675, dateTo = None\<rparr> r
         \<and> make_feature example_platform example_now r = Inr example_feature
         \<and> timestamp r = 1699999900)
   \<and> distinct (map prop_id (get_truck_locations example_platform (Reachable example_table) example_now
       (of_query (Some (ascii ''T1''))) (of_query (Some (ascii ''2023-11-14''))) (of_query None)))"
proof -
  have q: "get_truck_locations example_platform (Reachable example_table) example_now
       (of_query (Some (ascii ''T1''))) (of_query (Some (ascii ''2023-11-14''))) (of_query None) =
       [example_feature]"
    using example_locations by (simp add: of_query_def)
  then have mem: "example_feature \<in> set (get_truck_locations example_platform
       (Reachable example_table) example_now
       (of_query (Some (ascii ''T1''))) (of_query (Some (ascii ''2023-11-14''))) (of_query None))"
    by simp
  from one_latest_feature_per_vehicle [of example_platform "Reachable example_table" example_now
      "of_query (Some (ascii ''T1''))" "of_query (Some (ascii ''2023-11-14''))" "of_query None"
      "Some (ascii ''T1'')" "Some (ascii ''2023-11-14'')" None] mem
  obtain table F r where t: "Reachable example_table = Reachable table"
    and F: "request_filter example_platform (Some (ascii ''T1'')) (Some (ascii ''2023-11-14'')) None
              = Some F"
    and r: "r \<in> set table" and sat: "satisfies F r"
    and mk: "make_feature example_platform example_now r = Inr example_feature"
    and d: "distinct (map prop_id (get_truck_locations example_platform (Reachable example_table)
       example_now (of_query (Some (ascii ''T1''))) (of_query (Some (ascii ''2023-11-14'')))
       (of_query None)))"
    by blast
  from F have F': "F = \<lparr>vehicleIds = {ascii ''T1''}, dateFrom = Some 19675, dateTo = None\<rparr>"
    by (simp add: example_request_filter)
  from mk have "timestamp r = 1699999900"
    by (auto simp: make_feature_def example_feature_def split: option.splits)
  with t r sat mk d mem F' show ?thesis by auto
qed

subsection \<open>The vehicle list\<close>

lemma unfiltered_covers_table:
  assumes tir: "timestamps_in_range p (Reachable table)"
    and lo: "requested_date p date_from_q = Some lo"
    and hi: "requested_date p date_to_q = Some hi"
    and r: "r \<in> set table"
    and sat: "satisfies \<lparr>vehicleIds = {}, dateFrom = lo, dateTo = hi\<rparr> r"
  shows "car r \<in> prop_id ` set (get_truck_locations p (Reachable table) now JNull
            (of_query date_from_q) (of_query date_to_q))"
proof -
  define cs where "cs = date_clauses DateGe (of_query date_from_q)
                        @ date_clauses DateLe (of_query date_to_q)"
  have bc: "build_clauses JNull (of_query date_from_q) (of_query date_to_q) = Inr cs"
    using build_clauses_car [OF car_clauses_none] by (simp add: cs_def)
  have valid: "list_all (clause_valid p) cs"
    by (simp add: cs_def date_clauses_query_ge(1) date_clauses_query_le(1) lo hi)
  from sat have "where_clause p cs r"
    by (simp add: where_clause_def cs_def satisfies_def date_clauses_query_ge(2) [OF lo]
        date_clauses_query_le(2) [OF hi])
  with r have "car r \<in> car ` set (distinct_on_car (sort_rows (filter (where_clause p cs) table)))"
    by (simp add: distinct_on_car_cars sort_rows_set)
  then obtain x where x: "x \<in> set (distinct_on_car (sort_rows (filter (where_clause p cs) table)))"
    and cx: "car x = car r"
    by auto
  from x distinct_on_car_subset have "x \<in> set (sort_rows (filter (where_clause p cs) table))"
    by blast
  then have "x \<in> set table" by (simp add: sort_rows_set)
  with tir have "fromtimestamp p (timestamp x) \<noteq> None"
    by (simp add: timestamps_in_range_def list_all_iff)
  from make_feature_in_range [OF this, of now] cx
  have "prop_id (projr (make_feature p now x)) = car r" by simp
  with x have "car r \<in> prop_id ` set (map (\<lambda>r. projr (make_feature p now r))
       (distinct_on_car (sort_rows (filter (where_clause p cs) table))))"
    by force
  then show ?thesis
    by (simp only: get_truck_locations_in_range [OF tir bc valid])
qed

lemma example_unfiltered:
  "map prop_id (get_trucks example_platform (Reachable example_table) example_now None None None) =
     [ascii ''T1'', ascii ''T2'']"
  by (simp add: query_defs example_defs)

text \<open>
  C10 (as stated: a \<^verbatim>\<open>car\<close> filter that is empty, or a list of blank tokens, restricts
  nothing, and the result covers all vehicles, not zero vehicles). With the \<^verbatim>\<open>car\<close> filter
  \<^verbatim>\<open>","\<close> and a table in which one timestamp cannot be rendered, building the features
  raises and the result holds zero vehicles, although the table holds \<^verbatim>\<open>T1\<close>.
\<close>

theorem blank_car_filter_selects_all_vehicles_counterexample:
  "comma \<in> set (ascii '','')
   \<and> list_all (\<lambda>vid. strip vid = []) (split_comma (ascii '',''))
   \<and> get_trucks example_platform (Reachable corrupt_table) example_now (Some (ascii '','')) None None = []
   \<and> ascii ''T1'' \<in> car ` set corrupt_table"
  by (simp add: query_defs example_defs corrupt_table_def)

text \<open>
  C10 (amended). A \<^verbatim>\<open>car\<close> filter that is the empty string, or that holds a comma while each
  of its tokens is empty once stripped (\<^verbatim>\<open>","\<close>, \<^verbatim>\<open>" , "\<close>), restricts nothing: the query has
  the conditions, and \<^verbatim>\<open>get_truck_locations\<close> and \<^verbatim>\<open>GET /api/trucks\<close> have the result, of a
  request without \<^verbatim>\<open>car\<close> filter. When the database is reachable, the date parameters are
  dates (or absent) and the table holds rows without null columns whose timestamps can be
  rendered, that result has a feature for every vehicle that has a row within the date
  bounds.
\<close>

theorem blank_car_filter_selects_all_vehicles:
  assumes "s = [] \<or> (comma \<in> set s \<and> list_all (\<lambda>vid. strip vid = []) (split_comma s))"
  shows "build_clauses (JStr s) d1 d2 = build_clauses JNull d1 d2
       \<and> get_truck_locations p store now (JStr s) d1 d2 = get_truck_locations p store now JNull d1 d2
       \<and> get_trucks p store now (Some s) date_from_q date_to_q =
           get_trucks p store now None date_from_q date_to_q
       \<and> (timestamps_in_range p (Reachable table)
            \<and> requested_date p date_from_q = Some lo \<and> requested_date p date_to_q = Some hi
          \<longrightarrow> (\<forall>r \<in> set table. satisfies \<lparr>vehicleIds = {}, dateFrom = lo, dateTo = hi\<rparr> r
                 \<longrightarrow> car r \<in> prop_id ` set (get_trucks p (Reachable table) now (Some s)
                                                date_from_q date_to_q)))"
proof -
  have cl: "build_clauses (JStr s) d d' = build_clauses JNull d d'" for d d'
    by (simp add: build_clauses_def car_clauses_blank [OF assms] car_clauses_none)
  have loc: "get_truck_locations p st now (JStr s) d d' = get_truck_locations p st now JNull d d'"
    for d d' st
    unfolding get_truck_locations_def truck_locations_body_def cl by (rule refl)
  have trucks: "get_trucks p st now (Some s) date_from_q date_to_q =
           get_trucks p st now None date_from_q date_to_q" for st
    by (simp add: get_trucks_def of_query_def loc)
  have cover: "timestamps_in_range p (Reachable table)
            \<and> requested_date p date_from_q = Some lo \<and> requested_date p date_to_q = Some hi
          \<longrightarrow> (\<forall>r \<in> set table. satisfies \<lparr>vehicleIds = {}, dateFrom = lo, dateTo = hi\<rparr> r
                 \<longrightarrow> car r \<in> prop_id ` set (get_trucks p (Reachable table) now (Some s)
                                                date_from_q date_to_q))"
  proof (intro impI ballI)
    fix r
    assume h: "timestamps_in_range p (Reachable table)
            \<and> requested_date p date_from_q = Some lo \<and> requested_date p date_to_q = Some hi"
      and r: "r \<in> set table"
      and sat: "satisfies \<lparr>vehicleIds = {}, dateFrom = lo, dateTo = hi\<rparr> r"
    from h have tir: "timestamps_in_range p (Reachable table)"
      and lo: "requested_date p date_from_q = Some lo"
      and hi: "requested_date p date_to_q = Some hi"
      by simp_all
    have "get_trucks p (Reachable table) now (Some s) date_from_q date_to_q =
        get_truck_locations p (Reachable table) now JNull (of_query date_from_q) (of_query date_to_q)"
      by (simp only: trucks) (simp add: get_trucks_def of_query_None)
    with unfiltered_covers_table [OF tir lo hi r sat, of now]
    show "car r \<in> prop_id ` set (get_trucks p (Reachable table) now (Some s)
                                                date_from_q date_to_q)"
      by simp
  qed
  from cl loc trucks cover show ?thesis by blast
qed

theorem blank_car_filter_selects_all_vehicles_witness:
  "comma \<in> set (ascii '' , '')
   \<and> list_all (\<lambda>vid. strip vid = []) (split_comma (ascii '' , ''))
   \<and> timestamps_in_range example_platform (Reachable example_table)
   \<and> requested_date example_platform None = Some None
   \<and> get_trucks example_platform (Reachable example_table) example_now (Some (ascii '' , '')) None None
       = get_trucks example_platform (Reachable example_table) example_now None None None
   \<and> map prop_id (get_trucks example_platform (Reachable example_table) example_now
         (Some (ascii '' , '')) None None) = [ascii ''T1'', ascii ''T2'']
   \<and> car ` set example_table \<subseteq> prop_id ` set (get_trucks example_platform (Reachable example_table)
         example_now (Some (ascii '' , '')) None None)"
proof -
  have h: "comma \<in> set (ascii '' , '')
      \<and> list_all (\<lambda>vid. strip vid = []) (split_comma (ascii '' , ''))"
    by (simp add: strip_def is_space_def ascii_def)
  then have blank: "ascii '' , '' = []
      \<or> (comma \<in> set (ascii '' , '') \<and> list_all (\<lambda>vid. strip vid = []) (split_comma (ascii '' , '')))"
    by blast
  have tir: "timestamps_in_range example_platform (Reachable example_table)"
    by (simp add: timestamps_in_range_def example_defs)
  have rd: "requested_date example_platform None = Some None"
    by (simp add: requested_date_def)
  have sat: "satisfies \<lparr>vehicleIds = {}, dateFrom = None, dateTo = None\<rparr> r" for r
    by (simp add: satisfies_def)
  note inst = blank_car_filter_selects_all_vehicles [OF blank, of JNull JNull example_platform
      "Reachable example_table" example_now None None example_table None None]
  from inst have eq: "get_trucks example_platform (Reachable example_table) example_now
        (Some (ascii '' , '')) None None
       = get_trucks example_platform (Reachable example_table) example_now None None None"
    by blast
  from inst tir rd sat have cover: "car ` set example_table \<subseteq> prop_id ` set (get_trucks
         example_platform (Reachable example_table) example_now (Some (ascii '' , '')) None None)"
    by blast
  from eq example_unfiltered have ids: "map prop_id (get_trucks example_platform
         (Reachable example_table) example_now (Some (ascii '' , '')) None None) =
         [ascii ''T1'', ascii ''T2'']"
    by (simp only:)
  from h tir rd eq ids cover show ?thesis by blast
qed









text \<open>
  A vehicle id with the code point 0 is refused by the driver, so a list that names it
  returns nothing, whatever else it names.
\<close>

lemma nul_parameter_refused:
  "get_truck_locations p (Reachable table) now (JStr (ascii ''T1'' @ ascii '', '' @ [0])) d1 d2 = []"
proof -
  have "vehicle_ids_of (ascii ''T1'' @ ascii '', '' @ [0]) = [ascii ''T1'', [0]]"
    by (simp add: vehicle_ids_of_def strip_def is_space_def ascii_def)
  then have "car_clauses (JStr (ascii ''T1'' @ ascii '', '' @ [0])) = Inr [CarIn [ascii ''T1'', [0]]]"
    by (simp add: car_clauses_string ascii_def)
  from build_clauses_car [OF this, of d1 d2]
  show ?thesis
    by (rule get_truck_locations_invalid) (simp add: param_ok_def)
qed




section \<open>Properties of the live session\<close>

subsection \<open>Reading client messages\<close>

lemma dict_lookup_Some_key:
  "dict_lookup kvs k = Some v \<Longrightarrow> k \<in> set (map fst kvs) \<and> kvs \<noteq> []"
proof -
  assume "dict_lookup kvs k = Some v"
  then have "(k, v) \<in> set kvs"
    by (auto simp: dict_lookup_def dest: map_of_SomeD)
  then show ?thesis by force
qed

lemma dict_lookup_None_key:
  "dict_lookup kvs k = None \<Longrightarrow> k \<notin> set (map fst kvs)"
  by (simp add: dict_lookup_def map_of_eq_None_iff)

lemma update_filters_well_formed:
  assumes "filters_of data = Some fs"
  shows "update_filters f data =
           (\<lparr>car_filter = merged fs ''car'' (car_filter f),
             date_from = merged fs ''dateFrom'' (date_from f),
             date_to = merged fs ''dateTo'' (date_to f)\<rparr>, None)"
proof -
  from assms obtain kvs where d: "data = JObj kvs"
    and l: "dict_lookup kvs ''filters'' = Some (JObj fs)"
    by (cases data) (auto split: option.splits json.splits)
  from dict_lookup_Some_key [OF l] have "''filters'' \<in> set (map fst kvs)" "kvs \<noteq> []"
    by simp_all
  with d l show ?thesis
    by (cases f) (simp add: update_filters_def merged_def Let_def split: option.splits)
qed

lemma update_filters_not_an_update:
  assumes "filters_of data = None"
  shows "fst (update_filters f data) = f"
proof (cases data)
  case (JObj kvs)
  show ?thesis
  proof (cases "dict_lookup kvs ''filters''")
    case None
    from dict_lookup_None_key [OF None] JObj show ?thesis
      by (simp add: update_filters_def)
  next
    case (Some v)
    with assms JObj have "\<forall>fs. v \<noteq> JObj fs"
      by auto
    then have "\<exists>e. py_get v ''car'' (car_filter f) = Inl e"
      by (cases v) simp_all
    with JObj Some show ?thesis
      by (auto simp: update_filters_def split: sum.splits bool.splits)
  qed
qed (simp_all add: update_filters_def split: sum.splits bool.splits)

lemma read_client_well_formed:
  assumes "filters_of data = Some fs"
  shows "read_client f (Data data) =
           \<lparr>car_filter = merged fs ''car'' (car_filter f),
            date_from = merged fs ''dateFrom'' (date_from f),
            date_to = merged fs ''dateTo'' (date_to f)\<rparr>"
  by (simp add: read_client_def update_filters_well_formed [OF assms])

subsection \<open>Counting states\<close>

lemma count_statuses_sum:
  assumes "m Moving = Some a" "m Idle = Some b" "m Stopped = Some c"
  shows "\<exists>m' a' b' c'. count_statuses m fs = Inr m' \<and> m' Moving = Some a' \<and> m' Idle = Some b'
           \<and> m' Stopped = Some c' \<and> a' + b' + c' = a + b + c + int (length fs)"
  using assms
proof (induction fs arbitrary: m a b c)
  case Nil
  then show ?case by simp
next
  case (Cons f fs)
  show ?case
  proof (cases "prop_status f")
    case Moving
    have "\<exists>m' a' b' c'. count_statuses (m(Moving \<mapsto> a + 1)) fs = Inr m' \<and> m' Moving = Some a'
        \<and> m' Idle = Some b' \<and> m' Stopped = Some c' \<and> a' + b' + c' = (a + 1) + b + c + int (length fs)"
      by (rule Cons.IH) (simp_all add: Cons.prems)
    with Moving Cons.prems show ?thesis by auto
  next
    case Idle
    have "\<exists>m' a' b' c'. count_statuses (m(Idle \<mapsto> b + 1)) fs = Inr m' \<and> m' Moving = Some a'
        \<and> m' Idle = Some b' \<and> m' Stopped = Some c' \<and> a' + b' + c' = a + (b + 1) + c + int (length fs)"
      by (rule Cons.IH) (simp_all add: Cons.prems)
    with Idle Cons.prems show ?thesis by auto
  next
    case Stopped
    have "\<exists>m' a' b' c'. count_statuses (m(Stopped \<mapsto> c + 1)) fs = Inr m' \<and> m' Moving = Some a'
        \<and> m' Idle = Some b' \<and> m' Stopped = Some c' \<and> a' + b' + c' = a + b + (c + 1) + int (length fs)"
      by (rule Cons.IH) (simp_all add: Cons.prems)
    with Stopped Cons.prems show ?thesis by auto
  qed
qed

lemma count_statuses_init:
  "\<exists>m. count_statuses status_counts_init fs = Inr m \<and> counts_complete \<lparr>features = fs, counts = m\<rparr>"
  using count_statuses_sum [of status_counts_init 0 0 0 fs]
  by (auto simp: status_counts_init_def counts_complete_def)

subsection \<open>One cycle and the loop\<close>

lemma websocket_cycle_sent:
  assumes "send_ok i"
  shows "\<exists>m. websocket_cycle p f i =
            (read_client f (client i), Some \<lparr>features = cycle_features p f i, counts = m\<rparr>, Streaming)
          \<and> counts_complete \<lparr>features = cycle_features p f i, counts = m\<rparr>"
proof -
  from count_statuses_init [of "cycle_features p f i"] obtain m
    where m: "count_statuses status_counts_init (cycle_features p f i) = Inr m"
      and c: "counts_complete \<lparr>features = cycle_features p f i, counts = m\<rparr>"
    by blast
  from m assms have "websocket_cycle p f i =
      (read_client f (client i), Some \<lparr>features = cycle_features p f i, counts = m\<rparr>, Streaming)"
    by (simp add: websocket_cycle_def cycle_features_def Let_def)
  with c show ?thesis by blast
qed

lemma websocket_cycle_not_sent:
  assumes "\<not> send_ok i"
  shows "websocket_cycle p f i = (read_client f (client i), None, Closed)"
proof -
  from count_statuses_init [of "cycle_features p f i"] obtain m
    where m: "count_statuses status_counts_init (cycle_features p f i) = Inr m"
    by blast
  with assms show ?thesis
    by (simp add: websocket_cycle_def cycle_features_def Let_def)
qed

lemma websocket_cycle_empty:
  assumes "cycle_features p f i = []" and "send_ok i"
  shows "websocket_cycle p f i = (read_client f (client i), Some empty_snapshot, Streaming)"
  using assms
  by (simp add: websocket_cycle_def cycle_features_def Let_def status_counts_init_def
      empty_snapshot_def)

lemma websocket_endpoint_sent:
  assumes "websocket_cycle p f i = (f', Some s, Streaming)"
  shows "websocket_endpoint p f (i # rest) =
           (s # fst (websocket_endpoint p f' rest), snd (websocket_endpoint p f' rest))"
  using assms by (simp add: case_prod_unfold Let_def)

lemma websocket_endpoint_counts:
  "s \<in> set (fst (websocket_endpoint p f inputs)) \<Longrightarrow> counts_complete s"
proof (induction inputs arbitrary: f)
  case Nil
  then show ?case by simp
next
  case (Cons i rest)
  show ?case
  proof (cases "send_ok i")
    case True
    from websocket_cycle_sent [OF True, of p f] obtain m
      where c: "websocket_cycle p f i =
          (read_client f (client i), Some \<lparr>features = cycle_features p f i, counts = m\<rparr>, Streaming)"
        and ok: "counts_complete \<lparr>features = cycle_features p f i, counts = m\<rparr>"
      by blast
    from Cons.prems websocket_endpoint_sent [OF c, of rest]
    have "s = \<lparr>features = cycle_features p f i, counts = m\<rparr>
        \<or> s \<in> set (fst (websocket_endpoint p (read_client f (client i)) rest))"
      by auto
    with ok Cons.IH show ?thesis by blast
  next
    case False
    from Cons.prems websocket_cycle_not_sent [OF False, of p f] show ?thesis by simp
  qed
qed

lemma example_session_sent:
  "fst (websocket_endpoint example_platform example_filter
          [example_cycle TimedOut (Reachable example_table)]) =
     [example_snapshot]"
  by (simp add: example_snapshot_def example_feature_def websocket_cycle_def read_client_def status_counts_init_def query_defs example_defs
      Let_def fun_upd_twist)

lemma live_repository_failure_empty:
  "live_repository_failure p store c d1 d2 \<Longrightarrow> get_truck_locations p store now c d1 d2 = []"
  by (auto simp: live_repository_failure_def get_truck_locations_def truck_locations_body_def
      split: sum.splits)

lemma refused_date_fails:
  assumes "s \<noteq> []" and "date_param p (JStr s) = None"
  shows "live_repository_failure p (Reachable table) (of_query car_q) (JStr s) d2"
    and "history_repository_failure p (Reachable table) car_id (Some s) date_to_q"
proof -
  from car_clauses_query [of car_q p] obtain cc where "car_clauses (of_query car_q) = Inr cc"
    by blast
  from build_clauses_car [OF this, of "JStr s" d2] assms
  show "live_repository_failure p (Reachable table) (of_query car_q) (JStr s) d2"
    by (simp add: live_repository_failure_def get_db_connection_def latest_records_rows
        date_clauses_def)
  from assms show "history_repository_failure p (Reachable table) car_id (Some s) date_to_q"
    by (simp add: history_repository_failure_def get_db_connection_def history_records_def
        history_clauses_def date_clauses_def of_query_def)
qed

text \<open>
  C4. Every message pushed on the live channel carries counts for all three states
  (moving, idle and stopped are keys of the mapping even when their count is zero), and
  the three counts add up to the number of features of the same message.
\<close>

theorem snapshot_counts_cover_features:
  "s \<in> set (fst (websocket_endpoint p f inputs)) \<Longrightarrow>
     \<exists>a b c. counts s Moving = Some a \<and> counts s Idle = Some b \<and> counts s Stopped = Some c
       \<and> a + b + c = int (length (features s))"
  using websocket_endpoint_counts [of s p f inputs] by (simp add: counts_complete_def)

theorem snapshot_counts_cover_features_witness:
  "example_snapshot \<in> set (fst (websocket_endpoint example_platform example_filter
                                  [example_cycle TimedOut (Reachable example_table)]))
   \<and> (\<exists>a b c. counts example_snapshot Moving = Some a \<and> counts example_snapshot Idle = Some b
         \<and> counts example_snapshot Stopped = Some c
         \<and> a + b + c = int (length (features example_snapshot)))"
proof -
  have sent: "example_snapshot \<in> set (fst (websocket_endpoint example_platform example_filter
                                  [example_cycle TimedOut (Reachable example_table)]))"
    unfolding example_session_sent by simp
  from sent snapshot_counts_cover_features [OF sent] show ?thesis by blast
qed

text \<open>
  C5. When the repository fails during a live cycle (the database cannot be reached, or
  it rejects the query), the cycle pushes a collection with no features and all three
  counts zero, and the session goes on to the next cycle (provided the client socket takes
  the message). When the repository fails on the history endpoint
  \<^verbatim>\<open>GET /api/trucks/{car_id}\<close>, the failure is raised to the caller as
  \<^verbatim>\<open>HTTPException(status_code=500)\<close>, not answered with an empty result. An unreachable
  database, and a date parameter that the database refuses, are failures of both.
\<close>

theorem repository_failure_live_and_history:
  "(live_repository_failure p (db i) (car_filter (read_client f (client i)))
        (date_from (read_client f (client i))) (date_to (read_client f (client i)))
      \<and> send_ok i \<longrightarrow>
        websocket_cycle p f i = (read_client f (client i), Some empty_snapshot, Streaming)
        \<and> websocket_endpoint p f (i # rest) =
            (empty_snapshot # fst (websocket_endpoint p (read_client f (client i)) rest),
             snd (websocket_endpoint p (read_client f (client i)) rest)))
   \<and> features empty_snapshot = []
   \<and> counts empty_snapshot = [Moving \<mapsto> 0, Idle \<mapsto> 0, Stopped \<mapsto> 0]
   \<and> (history_repository_failure p store car_id date_from_q date_to_q \<longrightarrow>
        get_truck_history p store car_id date_from_q date_to_q = Inl (HTTPException 500))
   \<and> live_repository_failure p Unreachable c d1 d2
   \<and> history_repository_failure p Unreachable car_id date_from_q date_to_q
   \<and> (s \<noteq> [] \<and> date_param p (JStr s) = None \<longrightarrow>
        live_repository_failure p (Reachable table) (of_query car_q) (JStr s) d2
        \<and> history_repository_failure p (Reachable table) car_id (Some s) date_to_q)"
proof -
  have live: "live_repository_failure p (db i) (car_filter (read_client f (client i)))
        (date_from (read_client f (client i))) (date_to (read_client f (client i)))
      \<and> send_ok i \<longrightarrow>
        websocket_cycle p f i = (read_client f (client i), Some empty_snapshot, Streaming)
        \<and> websocket_endpoint p f (i # rest) =
            (empty_snapshot # fst (websocket_endpoint p (read_client f (client i)) rest),
             snd (websocket_endpoint p (read_client f (client i)) rest))"
  proof
    assume a: "live_repository_failure p (db i) (car_filter (read_client f (client i)))
        (date_from (read_client f (client i))) (date_to (read_client f (client i)))
      \<and> send_ok i"
    then have "cycle_features p f i = []"
      by (simp add: cycle_features_def live_repository_failure_empty)
    from websocket_cycle_empty [OF this] a
    have c: "websocket_cycle p f i = (read_client f (client i), Some empty_snapshot, Streaming)"
      by simp
    from c websocket_endpoint_sent [OF c, of rest] show
      "websocket_cycle p f i = (read_client f (client i), Some empty_snapshot, Streaming)
        \<and> websocket_endpoint p f (i # rest) =
            (empty_snapshot # fst (websocket_endpoint p (read_client f (client i)) rest),
             snd (websocket_endpoint p (read_client f (client i)) rest))"
      by blast
  qed
  have history: "history_repository_failure p store car_id date_from_q date_to_q \<longrightarrow>
        get_truck_history p store car_id date_from_q date_to_q = Inl (HTTPException 500)"
    by (auto simp: history_repository_failure_def get_truck_history_def truck_history_body_def
        split: sum.splits)
  have none: "features empty_snapshot = []"
    by (simp add: empty_snapshot_def)
  have zero: "counts empty_snapshot = [Moving \<mapsto> 0, Idle \<mapsto> 0, Stopped \<mapsto> 0]"
    by (simp add: empty_snapshot_def)
  have down: "live_repository_failure p Unreachable c d1 d2"
    "history_repository_failure p Unreachable car_id date_from_q date_to_q"
    by (simp_all add: live_repository_failure_def history_repository_failure_def
        get_db_connection_def)
  have refused: "s \<noteq> [] \<and> date_param p (JStr s) = None \<longrightarrow>
        live_repository_failure p (Reachable table) (of_query car_q) (JStr s) d2
        \<and> history_repository_failure p (Reachable table) car_id (Some s) date_to_q"
    using refused_date_fails by blast
  from live none zero history down refused show ?thesis by blast
qed

theorem repository_failure_live_and_history_witness:
  "live_repository_failure example_platform (db (example_cycle TimedOut Unreachable))
       (car_filter example_filter) (date_from example_filter) (date_to example_filter)
   \<and> send_ok (example_cycle TimedOut Unreachable)
   \<and> websocket_endpoint example_platform example_filter
        [example_cycle TimedOut Unreachable, example_cycle TimedOut (Reachable example_table)] =
        ([empty_snapshot, example_snapshot], Streaming)
   \<and> history_repository_failure example_platform Unreachable (ascii ''T1'') None None
   \<and> get_truck_history example_platform Unreachable (ascii ''T1'') None None = Inl (HTTPException 500)
   \<and> ascii ''soon'' \<noteq> []
   \<and> date_param example_platform (JStr (ascii ''soon'')) = None
   \<and> get_truck_locations example_platform (Reachable example_table) example_now
        (of_query (Some (ascii ''T1''))) (JStr (ascii ''soon'')) JNull = []
   \<and> get_truck_history example_platform (Reachable example_table) (ascii ''T1'')
        (Some (ascii ''soon'')) None = Inl (HTTPException 500)"
proof -
  have r: "read_client example_filter (client (example_cycle TimedOut Unreachable)) = example_filter"
    by (simp add: example_cycle_def read_client_def)
  have d: "db (example_cycle TimedOut Unreachable) = Unreachable"
    by (simp add: example_cycle_def)
  have ok: "send_ok (example_cycle TimedOut Unreachable)"
    by (simp add: example_cycle_def)
  have s: "ascii ''soon'' \<noteq> []" "date_param example_platform (JStr (ascii ''soon'')) = None"
    by (simp_all add: ascii_def example_platform_def)
  have rest: "websocket_endpoint example_platform example_filter
      [example_cycle TimedOut (Reachable example_table)] = ([example_snapshot], Streaming)"
    by (simp add: example_snapshot_def example_feature_def websocket_cycle_def read_client_def
        status_counts_init_def query_defs example_defs Let_def fun_upd_twist)
  note inst = repository_failure_live_and_history [where p = example_platform
      and i = "example_cycle TimedOut Unreachable" and f = example_filter
      and rest = "[example_cycle TimedOut (Reachable example_table)]"
      and store = "Reachable example_table" and car_id = "ascii ''T1''"
      and date_from_q = "Some (ascii ''soon'')" and date_to_q = None
      and c = "car_filter example_filter" and ?d1.0 = "date_from example_filter"
      and ?d2.0 = "date_to example_filter" and s = "ascii ''soon''" and table = example_table
      and car_q = "Some (ascii ''T1'')"]
  have dt: "date_to example_filter = JNull"
    by (simp add: example_filter_def)
  from inst have down: "live_repository_failure example_platform Unreachable
       (car_filter example_filter) (date_from example_filter) (date_to example_filter)"
    by blast
  with inst ok have "websocket_endpoint example_platform example_filter
        (example_cycle TimedOut Unreachable # [example_cycle TimedOut (Reachable example_table)]) =
        (empty_snapshot # fst (websocket_endpoint example_platform example_filter
             [example_cycle TimedOut (Reachable example_table)]),
         snd (websocket_endpoint example_platform example_filter
             [example_cycle TimedOut (Reachable example_table)]))"
    by (simp only: r d)
  then have session: "websocket_endpoint example_platform example_filter
        [example_cycle TimedOut Unreachable, example_cycle TimedOut (Reachable example_table)] =
        ([empty_snapshot, example_snapshot], Streaming)"
    by (simp only: rest fst_conv snd_conv)
  from inst s have fails: "live_repository_failure example_platform (Reachable example_table)
        (of_query (Some (ascii ''T1''))) (JStr (ascii ''soon'')) JNull"
    "history_repository_failure example_platform (Reachable example_table) (ascii ''T1'')
        (Some (ascii ''soon'')) None"
    unfolding dt by blast+
  from inst fails(2) have h500: "get_truck_history example_platform (Reachable example_table)
        (ascii ''T1'') (Some (ascii ''soon'')) None = Inl (HTTPException 500)"
    by blast
  from live_repository_failure_empty [OF fails(1)]
  have empty: "get_truck_locations example_platform (Reachable example_table) example_now
        (of_query (Some (ascii ''T1''))) (JStr (ascii ''soon'')) JNull = []" .
  have hdown: "history_repository_failure example_platform Unreachable (ascii ''T1'') None None"
    "get_truck_history example_platform Unreachable (ascii ''T1'') None None = Inl (HTTPException 500)"
    by (simp_all add: history_repository_failure_def get_truck_history_def truck_history_body_def
        get_db_connection_def)
  from down d have live: "live_repository_failure example_platform
       (db (example_cycle TimedOut Unreachable))
       (car_filter example_filter) (date_from example_filter) (date_to example_filter)"
    by (simp only:)
  from live ok session hdown s empty h500 show ?thesis by blast
qed

text \<open>
  C6. A well-formed filter update is merged field by field, whatever the prior filter:
  each of \<^verbatim>\<open>car\<close>, \<^verbatim>\<open>dateFrom\<close>, \<^verbatim>\<open>dateTo\<close> that is a key of the update replaces its filter
  field, and a field whose key is omitted keeps its prior value. In particular
  \<^verbatim>\<open>{filters: {car: "X"}}\<close> leaves \<^verbatim>\<open>dateFrom\<close> and \<^verbatim>\<open>dateTo\<close> as they were.
\<close>

theorem filter_update_merges_fields:
  assumes "filters_of data = Some fs"
  shows "car_filter (read_client f (Data data)) =
           (case dict_lookup fs ''car'' of Some v \<Rightarrow> v | None \<Rightarrow> car_filter f)
       \<and> date_from (read_client f (Data data)) =
           (case dict_lookup fs ''dateFrom'' of Some v \<Rightarrow> v | None \<Rightarrow> date_from f)
       \<and> date_to (read_client f (Data data)) =
           (case dict_lookup fs ''dateTo'' of Some v \<Rightarrow> v | None \<Rightarrow> date_to f)
       \<and> read_client f (Data (JObj [(''filters'', JObj [(''car'', JStr x)])])) =
           f\<lparr>car_filter := JStr x\<rparr>"
proof -
  have "filters_of (JObj [(''filters'', JObj [(''car'', JStr x)])]) = Some [(''car'', JStr x)]"
    by (simp add: dict_lookup_def)
  from read_client_well_formed [OF this, of f]
  have only_car: "read_client f (Data (JObj [(''filters'', JObj [(''car'', JStr x)])])) =
           f\<lparr>car_filter := JStr x\<rparr>"
    by (cases f) (simp add: merged_def dict_lookup_def)
  from read_client_well_formed [OF assms, of f] only_car show ?thesis
    by (simp add: merged_def)
qed

theorem filter_update_merges_fields_witness:
  "filters_of example_update = Some [(''car'', JStr (ascii ''X''))]
   \<and> read_client example_filter (Data example_update) =
       \<lparr>car_filter = JStr (ascii ''X''), date_from = JStr (ascii ''2023-11-14''), date_to = JNull\<rparr>"
proof -
  have w: "filters_of example_update = Some [(''car'', JStr (ascii ''X''))]"
    by (simp add: example_update_def dict_lookup_def)
  from filter_update_merges_fields [OF w, of example_filter] w show ?thesis
    by (cases "read_client example_filter (Data example_update)")
      (simp add: dict_lookup_def example_filter_def)
qed

text \<open>
  C7 (as stated: every malformed client message leaves the three filter fields
  unchanged). An update whose \<^verbatim>\<open>car\<close> is a number is malformed, yet the handler stores the
  number in \<^verbatim>\<open>car_filter\<close>: nothing validates the members of the \<^verbatim>\<open>filters\<close> object.
\<close>

theorem malformed_message_ignored_counterexample:
  "malformed example_platform (Data ill_typed_update)
   \<and> car_filter (read_client example_filter (Data ill_typed_update)) = JNum 5
   \<and> car_filter example_filter = JStr (ascii ''T1'')
   \<and> read_client example_filter (Data ill_typed_update) \<noteq> example_filter"
proof -
  have w: "filters_of ill_typed_update = Some [(''car'', JNum 5)]"
    by (simp add: ill_typed_update_def dict_lookup_def)
  then have m: "malformed example_platform (Data ill_typed_update)"
    by (simp add: well_formed_update_def member_ok_def car_value_ok_def dict_lookup_def)
  from read_client_well_formed [OF w, of example_filter]
  have c: "car_filter (read_client example_filter (Data ill_typed_update)) = JNum 5"
    by (simp add: merged_def dict_lookup_def)
  have e: "car_filter example_filter = JStr (ascii ''T1'')"
    by (simp add: example_filter_def)
  from c e have "read_client example_filter (Data ill_typed_update) \<noteq> example_filter"
    by auto
  with m c e show ?thesis by blast
qed

text \<open>
  C7 (amended). A client message that cannot be decoded, or whose decoded value is not an
  object with a \<^verbatim>\<open>filters\<close> member that is itself an object, leaves the three filter fields
  unchanged, and the session stays in \<open>Streaming\<close>: the cycle pushes the snapshot of the
  unchanged filter and the loop goes on (provided the client socket takes the message).
\<close>

theorem unreadable_message_ignored:
  assumes "not_an_update (client i)"
  shows "read_client f (client i) = f
       \<and> (send_ok i \<longrightarrow>
            (\<exists>m. websocket_cycle p f i =
                    (f, Some \<lparr>features = get_truck_locations p (db i) (clock i)
                                           (car_filter f) (date_from f) (date_to f),
                              counts = m\<rparr>, Streaming)
                \<and> websocket_endpoint p f (i # rest) =
                    (\<lparr>features = get_truck_locations p (db i) (clock i)
                                   (car_filter f) (date_from f) (date_to f),
                      counts = m\<rparr> # fst (websocket_endpoint p f rest),
                     snd (websocket_endpoint p f rest))))"
proof -
  have same: "read_client f (client i) = f"
  proof (cases "client i")
    case (Data data)
    with assms update_filters_not_an_update [of data f] show ?thesis
      by (simp add: read_client_def)
  qed (simp_all add: read_client_def)
  have "send_ok i \<longrightarrow>
            (\<exists>m. websocket_cycle p f i =
                    (f, Some \<lparr>features = get_truck_locations p (db i) (clock i)
                                           (car_filter f) (date_from f) (date_to f),
                              counts = m\<rparr>, Streaming)
                \<and> websocket_endpoint p f (i # rest) =
                    (\<lparr>features = get_truck_locations p (db i) (clock i)
                                   (car_filter f) (date_from f) (date_to f),
                      counts = m\<rparr> # fst (websocket_endpoint p f rest),
                     snd (websocket_endpoint p f rest)))"
  proof
    assume ok: "send_ok i"
    from websocket_cycle_sent [OF ok, of p f] obtain m where
      c: "websocket_cycle p f i =
            (read_client f (client i), Some \<lparr>features = cycle_features p f i, counts = m\<rparr>, Streaming)"
      by blast
    have fs: "cycle_features p f i =
        get_truck_locations p (db i) (clock i) (car_filter f) (date_from f) (date_to f)"
      by (simp add: cycle_features_def same)
    from c websocket_endpoint_sent [OF c, of rest] show
      "\<exists>m. websocket_cycle p f i =
                    (f, Some \<lparr>features = get_truck_locations p (db i) (clock i)
                                           (car_filter f) (date_from f) (date_to f),
                              counts = m\<rparr>, Streaming)
                \<and> websocket_endpoint p f (i # rest) =
                    (\<lparr>features = get_truck_locations p (db i) (clock i)
                                   (car_filter f) (date_from f) (date_to f),
                      counts = m\<rparr> # fst (websocket_endpoint p f rest),
                     snd (websocket_endpoint p f rest))"
      unfolding fs same by blast
  qed
  with same show ?thesis by blast
qed

theorem unreadable_message_ignored_witness:
  "not_an_update (client (example_cycle (Data (JObj [(''filters'', JStr (ascii ''T2''))])) (Reachable example_table)))
   \<and> send_ok (example_cycle (Data (JObj [(''filters'', JStr (ascii ''T2''))])) (Reachable example_table))
   \<and> websocket_endpoint example_platform example_filter
        [example_cycle (Data (JObj [(''filters'', JStr (ascii ''T2''))])) (Reachable example_table)] =
        ([example_snapshot], Streaming)"
proof -
  have m: "not_an_update (client (example_cycle (Data (JObj [(''filters'', JStr (ascii ''T2''))])) (Reachable example_table)))"
    by (simp add: example_cycle_def dict_lookup_def)
  have ok: "send_ok (example_cycle (Data (JObj [(''filters'', JStr (ascii ''T2''))])) (Reachable example_table))"
    by (simp add: example_cycle_def)
  have fs: "get_truck_locations example_platform
        (db (example_cycle (Data (JObj [(''filters'', JStr (ascii ''T2''))])) (Reachable example_table)))
        (clock (example_cycle (Data (JObj [(''filters'', JStr (ascii ''T2''))])) (Reachable example_table)))
        (car_filter example_filter) (date_from example_filter) (date_to example_filter) =
        features example_snapshot"
    by (simp add: example_snapshot_def example_feature_def query_defs example_defs)
  from unreadable_message_ignored [OF m, of example_filter example_platform "[]"] ok
  obtain m' where c: "websocket_cycle example_platform example_filter
        (example_cycle (Data (JObj [(''filters'', JStr (ascii ''T2''))])) (Reachable example_table)) =
        (example_filter, Some \<lparr>features = features example_snapshot, counts = m'\<rparr>, Streaming)"
    and e: "websocket_endpoint example_platform example_filter
        [example_cycle (Data (JObj [(''filters'', JStr (ascii ''T2''))])) (Reachable example_table)] =
        ([\<lparr>features = features example_snapshot, counts = m'\<rparr>], Streaming)"
    unfolding fs by auto
  have "websocket_cycle example_platform example_filter
        (example_cycle (Data (JObj [(''filters'', JStr (ascii ''T2''))])) (Reachable example_table)) =
        (example_filter, Some example_snapshot, Streaming)"
    by (simp add: example_snapshot_def example_feature_def websocket_cycle_def read_client_def update_filters_def
        dict_lookup_def status_counts_init_def query_defs example_defs Let_def fun_upd_twist)
  with c have "\<lparr>features = features example_snapshot, counts = m'\<rparr> = example_snapshot"
    by simp
  with e m ok show ?thesis by simp
qed

text \<open>
  A message that has a \<^verbatim>\<open>filters\<close> object is merged whatever the types of its members. A
  number stored in \<^verbatim>\<open>car_filter\<close> makes the query raise on \<^verbatim>\<open>',' in car_filter\<close>, so every
  cycle pushes an empty collection until the client sends another \<^verbatim>\<open>car\<close>.
\<close>

lemma ill_typed_member_is_stored:
  "read_client f (Data (JObj [(''filters'', JObj [(''car'', JNum 5)])])) = f\<lparr>car_filter := JNum 5\<rparr>
   \<and> get_truck_locations p store now (JNum 5) d1 d2 = []"
proof -
  have "filters_of (JObj [(''filters'', JObj [(''car'', JNum 5)])]) = Some [(''car'', JNum 5)]"
    by (simp add: dict_lookup_def)
  from read_client_well_formed [OF this, of f]
  have stored: "read_client f (Data (JObj [(''filters'', JObj [(''car'', JNum 5)])])) =
      f\<lparr>car_filter := JNum 5\<rparr>"
    by (cases f) (simp add: merged_def dict_lookup_def)
  have "build_clauses (JNum 5) d1 d2 = Inl TypeError"
    by (simp add: build_clauses_def car_clauses_def)
  from get_truck_locations_no_clauses [OF this] stored show ?thesis by simp
qed

text \<open>
  C9. In a well-formed update, a key \<^verbatim>\<open>car\<close>, \<^verbatim>\<open>dateFrom\<close> or \<^verbatim>\<open>dateTo\<close> that is present with
  the value \<^verbatim>\<open>null\<close> sets that filter field to \<^verbatim>\<open>None\<close>; only a key that is absent keeps the
  prior value. A filter whose fields are \<^verbatim>\<open>None\<close> adds no condition to the query: all
  vehicles, unbounded dates.
\<close>

theorem null_member_clears_field:
  assumes "filters_of data = Some fs"
  shows "(dict_lookup fs ''car'' = Some JNull \<longrightarrow> car_filter (read_client f (Data data)) = JNull)
       \<and> (dict_lookup fs ''dateFrom'' = Some JNull \<longrightarrow> date_from (read_client f (Data data)) = JNull)
       \<and> (dict_lookup fs ''dateTo'' = Some JNull \<longrightarrow> date_to (read_client f (Data data)) = JNull)
       \<and> (dict_lookup fs ''car'' = None \<longrightarrow> car_filter (read_client f (Data data)) = car_filter f)
       \<and> (dict_lookup fs ''dateFrom'' = None \<longrightarrow> date_from (read_client f (Data data)) = date_from f)
       \<and> (dict_lookup fs ''dateTo'' = None \<longrightarrow> date_to (read_client f (Data data)) = date_to f)
       \<and> build_clauses JNull JNull JNull = Inr []"
proof -
  have "build_clauses JNull JNull JNull = Inr []"
    by (simp add: build_clauses_def car_clauses_def date_clauses_def)
  with read_client_well_formed [OF assms, of f] show ?thesis
    by (simp add: merged_def)
qed

theorem null_member_clears_field_witness:
  "filters_of example_null_update = Some [(''car'', JNull), (''dateFrom'', JNull)]
   \<and> dict_lookup [(''car'', JNull), (''dateFrom'', JNull)] ''car'' = Some JNull
   \<and> dict_lookup [(''car'', JNull), (''dateFrom'', JNull)] ''dateFrom'' = Some JNull
   \<and> dict_lookup [(''car'', JNull), (''dateFrom'', JNull)] ''dateTo'' = None
   \<and> car_filter example_filter = JStr (ascii ''T1'')
   \<and> date_from example_filter = JStr (ascii ''2023-11-14'')
   \<and> car_filter (read_client example_filter (Data example_null_update)) = JNull
   \<and> date_from (read_client example_filter (Data example_null_update)) = JNull
   \<and> date_to (read_client example_filter (Data example_null_update)) = date_to example_filter"
proof -
  have w: "filters_of example_null_update = Some [(''car'', JNull), (''dateFrom'', JNull)]"
    by (simp add: example_null_update_def dict_lookup_def)
  from null_member_clears_field [OF w, of example_filter] w show ?thesis
    by (simp add: dict_lookup_def example_filter_def)
qed

end
